theory Spec2Isabelle
  imports Main "HOL-Library.Sublist"
begin

section \<open>Errors and JavaScript conventions\<close>

text \<open>
  The TypeScript sources throw \<^verbatim>\<open>new Error(message)\<close>; a thrown error is the left
  injection of a sum. \<open>TypeError\<close> is the runtime error JavaScript raises when a
  property of \<^verbatim>\<open>undefined\<close> is read (no source line throws it on purpose).
  Strings are lists of characters; an optional field (\<^verbatim>\<open>label?: string | null\<close>,
  \<^verbatim>\<open>name?: string\<close>) is a \<open>string option\<close>, \<open>None\<close> standing for both
  \<^verbatim>\<open>undefined\<close> and \<^verbatim>\<open>null\<close>, which every \<^verbatim>\<open>typeof x === "string"\<close> test of the
  source treats alike.
\<close>

datatype error = Error string | TypeError

text \<open>\<^verbatim>\<open>String.prototype.endsWith\<close>: \<open>endsWith s t\<close> is \<^verbatim>\<open>s.endsWith(t)\<close>.\<close>

definition endsWith :: "string \<Rightarrow> string \<Rightarrow> bool" where
  "endsWith s t = suffix t s"

text \<open>
  \<^verbatim>\<open>value.replace(new RegExp(`${sfx}$`), "")\<close> for a pattern \<open>sfx\<close> without regular
  expression operators: the literal suffix is cut off when present.
\<close>

definition replaceSuffix :: "string \<Rightarrow> string \<Rightarrow> string" where
  "replaceSuffix sfx v = (if suffix sfx v then take (length v - length sfx) v else v)"

section \<open>Platform identifiers (src/platform.ts)\<close>

definition ALL_TARGET_TRIPLES :: "string list" where
  "ALL_TARGET_TRIPLES =
     [''aarch64-apple-darwin'',
      ''aarch64-unknown-linux-musl'',
      ''x86_64-apple-darwin'',
      ''x86_64-unknown-linux-musl'']"

definition TARGET_DUPLES :: "string list" where
  "TARGET_DUPLES =
     [''linux-amd64'', ''linux-arm64'', ''darwin-amd64'', ''darwin-arm64'',
      ''linux_amd64'', ''linux_arm64'', ''darwin_amd64'', ''darwin_arm64'']"

definition architectureLabel :: "string \<Rightarrow> error + string" where
  "architectureLabel arch =
     (if arch = ''arm64'' then Inr ''aarch64''
      else if arch = ''x64'' then Inr ''x86_64''
      else Inl (Error (''Unsupported architecture '' @ arch @
                       '' -- only aarch64 and x86_64 currently supported'')))"

text \<open>The pair is (vendor, operatingSystem).\<close>

definition platformLabel :: "string \<Rightarrow> error + (string \<times> string)" where
  "platformLabel platform =
     (if platform = ''darwin'' then Inr (''apple'', ''darwin'')
      else if platform = ''linux'' then Inr (''unknown'', ''linux-musl'')
      else Inl (Error (''Unsupported platform '' @ platform @
                       '' -- only darwin and linux currently supported'')))"

definition getTargetTriple :: "string \<Rightarrow> string \<Rightarrow> error + string" where
  "getTargetTriple arch platform =
     (case architectureLabel arch of
        Inl e \<Rightarrow> Inl e
      | Inr architecture \<Rightarrow>
          (case platformLabel platform of
             Inl e \<Rightarrow> Inl e
           | Inr (vendor, operatingSystem) \<Rightarrow>
               Inr (architecture @ ''-'' @ vendor @ ''-'' @ operatingSystem)))"

definition getTargetDuple :: "string \<Rightarrow> string \<Rightarrow> error + string" where
  "getTargetDuple arch platform =
     (if platform = ''darwin'' then
        Inr (if arch = ''arm64'' then ''darwin-arm64'' else ''darwin-amd64'')
      else if platform = ''linux'' then
        Inr (if arch = ''arm64'' then ''linux-arm64'' else ''linux-amd64'')
      else Inl (Error (''Unsupported platform '' @ platform @
                       '' for target duple conversion'')))"

definition getTargetDupleUnderscore :: "string \<Rightarrow> string \<Rightarrow> error + string" where
  "getTargetDupleUnderscore arch platform =
     (if platform = ''darwin'' then
        Inr (if arch = ''arm64'' then ''darwin_arm64'' else ''darwin_amd64'')
      else if platform = ''linux'' then
        Inr (if arch = ''arm64'' then ''linux_arm64'' else ''linux_amd64'')
      else Inl (Error (''Unsupported platform '' @ platform @
                       '' for target duple conversion'')))"

text \<open>
  One step of the second \<^verbatim>\<open>reduce\<close> of \<^verbatim>\<open>stripTargetTriple\<close>:
  \<^verbatim>\<open>value.replace(new RegExp(`[-_]${duple}$`), "")\<close>.
\<close>

definition replaceDupleSuffix :: "string \<Rightarrow> string \<Rightarrow> string" where
  "replaceDupleSuffix v duple =
     (if suffix (CHR ''-'' # duple) v \<or> suffix (CHR ''_'' # duple) v
      then take (length v - Suc (length duple)) v else v)"

text \<open>
  \<^verbatim>\<open>stripTargetTriple\<close>. Both \<^verbatim>\<open>find\<close> calls return a member of a list of non-empty
  strings, which is truthy, so each test is whether a member was found. The two
  \<^verbatim>\<open>reduce\<close> calls thread the value through every list entry, in list order.
\<close>

definition stripTargetTriple :: "string \<Rightarrow> string option" where
  "stripTargetTriple v =
     (if find (\<lambda>targetTriple. targetTriple = v) ALL_TARGET_TRIPLES \<noteq> None then None
      else if find (\<lambda>targetDuple. targetDuple = v) TARGET_DUPLES \<noteq> None then None
      else
        let strippedTriple =
              foldl (\<lambda>v targetTriple. replaceSuffix (CHR ''-'' # targetTriple) v)
                    v ALL_TARGET_TRIPLES
        in if strippedTriple \<noteq> v then Some strippedTriple
           else
             let strippedDuple = foldl replaceDupleSuffix v TARGET_DUPLES
             in if strippedDuple \<noteq> v then Some strippedDuple
                else Some v)"

section \<open>Semantic versions (src/types.ts, not among the sources)\<close>

text \<open>
  Modelled from the spec: \<^verbatim>\<open>types.ts\<close> is missing; the character classes of the
  spec's tag grammar (numeric components; letters, digits and hyphens in prerelease
  and build-metadata groups).
\<close>

definition isDigit :: "char \<Rightarrow> bool" where
  "isDigit c = (c \<in> set ''0123456789'')"

definition isIdentChar :: "char \<Rightarrow> bool" where
  "isIdentChar c =
     (c \<in> set ''0123456789abcdefghijklmnopqrstuvwxyzABCDEFGHIJKLMNOPQRSTUVWXYZ-'')"

text \<open>
  Modelled from the spec: the pieces of a dot-separated or slash-separated text, as
  \<^verbatim>\<open>s.split(c)\<close> gives them for a one-character separator.
\<close>

fun splitOn :: "char \<Rightarrow> string \<Rightarrow> string list" where
  "splitOn c [] = [[]]"
| "splitOn c (x # xs) =
     (if x = c then [] # splitOn c xs
      else (case splitOn c xs of [] \<Rightarrow> [[x]] | w # ws \<Rightarrow> (x # w) # ws))"

text \<open>
  Modelled from the spec: an optional part of the grammar that a separator character
  introduces; the text before the first \<open>c\<close>, and the text after it when \<open>c\<close>
  occurs.
\<close>

definition breakAt :: "char \<Rightarrow> string \<Rightarrow> string \<times> string option" where
  "breakAt c s =
     (takeWhile (\<lambda>x. x \<noteq> c) s,
      case dropWhile (\<lambda>x. x \<noteq> c) s of [] \<Rightarrow> None | _ # r \<Rightarrow> Some r)"

text \<open>
  Modelled from the spec: dot-separated groups, each non-empty and made of
  characters of the class \<open>P\<close>.
\<close>

definition dotSeparated :: "(char \<Rightarrow> bool) \<Rightarrow> string \<Rightarrow> bool" where
  "dotSeparated P s = list_all (\<lambda>g. g \<noteq> [] \<and> list_all P g) (splitOn (CHR ''.'') s)"

text \<open>
  Modelled from the spec: \<^verbatim>\<open>types.ts\<close>, which declares \<^verbatim>\<open>SemanticVersion\<close>,
  \<^verbatim>\<open>ExactSemanticVersion\<close> and \<^verbatim>\<open>isExactSemanticVersion\<close>, is missing. The spec's
  grammar of a tag is the literal \<^verbatim>\<open>v\<close>, then 1 to 3 dot-separated numeric
  components, then an optional \<^verbatim>\<open>-\<close> and prerelease (dot-separated groups of
  letters, digits and hyphens), then an optional \<^verbatim>\<open>+\<close> and build metadata (groups
  of the same kind). \<open>semanticVersionComponents\<close> returns the number of numeric
  components of a string of that grammar; a version is exact when major, minor and
  patch are all present.
\<close>

definition semanticVersionComponents :: "string \<Rightarrow> nat option" where
  "semanticVersionComponents s =
     (case s of
        [] \<Rightarrow> None
      | c # rest \<Rightarrow>
          if c \<noteq> CHR ''v'' then None
          else
            let (coreAndPre, build) = breakAt (CHR ''+'') rest;
                (core, pre) = breakAt (CHR ''-'') coreAndPre;
                n = length (splitOn (CHR ''.'') core)
            in if dotSeparated isDigit core \<and> n \<le> 3
                  \<and> (case pre of None \<Rightarrow> True | Some p \<Rightarrow> dotSeparated isIdentChar p)
                  \<and> (case build of None \<Rightarrow> True | Some b \<Rightarrow> dotSeparated isIdentChar b)
               then Some n else None)"

text \<open>
  Modelled from the spec: the grammar of \<^verbatim>\<open>SemanticVersion\<close> of the missing \<^verbatim>\<open>types.ts\<close>
  (a version may be partial).
\<close>

definition isSemanticVersion :: "string \<Rightarrow> bool" where
  "isSemanticVersion s = (semanticVersionComponents s \<noteq> None)"

text \<open>
  Modelled from the spec: \<^verbatim>\<open>isExactSemanticVersion\<close> of the missing \<^verbatim>\<open>types.ts\<close>; a tag
  is exact when it has all of major, minor and patch.
\<close>

definition isExactSemanticVersion :: "string \<Rightarrow> bool" where
  "isExactSemanticVersion s = (semanticVersionComponents s = Some 3)"

section \<open>Version resolution (src/fetch.ts)\<close>

text \<open>
  A tag of the repository's tag list. The source's field \<^verbatim>\<open>name\<close> is \<open>tagName\<close> here
  (a release asset has a \<^verbatim>\<open>name\<close> too).
\<close>

record Commit =
  sha :: string

record Tag =
  tagName :: string
  commit :: Commit

record RepositorySlug =
  owner :: string
  repository :: string

text \<open>
  The two variables that the closure returned by \<^verbatim>\<open>semanticVersionTagReducer\<close>
  captures and mutates. \<^verbatim>\<open>versionsBySha\<close> is an object used as a dictionary from sha
  to an array of versions; shas are hexadecimal strings, so no key names a property
  of \<^verbatim>\<open>Object.prototype\<close>.
\<close>

record ReducerState =
  versionsBySha :: "string \<rightharpoonup> string list"
  givenTagSha :: "string option"

text \<open>
  The functions of this section take the predicate \<^verbatim>\<open>isExactSemanticVersion\<close> of the
  missing \<^verbatim>\<open>types.ts\<close> as the parameter \<open>isExact\<close>.
\<close>

definition containsExactTag :: "(string \<Rightarrow> bool) \<Rightarrow> string list option \<Rightarrow> string option" where
  "containsExactTag isExact tags =
     (case tags of None \<Rightarrow> None | Some ts \<Rightarrow> find isExact ts)"

text \<open>The state of a fresh closure: \<^verbatim>\<open>semanticVersionTagReducer(givenTag)\<close>.\<close>

definition semanticVersionTagReducer :: ReducerState where
  "semanticVersionTagReducer = \<lparr>versionsBySha = Map.empty, givenTagSha = None\<rparr>"

text \<open>
  Modelled from the spec: \<^verbatim>\<open>option.ts\<close> (\<^verbatim>\<open>none\<close>, \<^verbatim>\<open>some\<close>, \<^verbatim>\<open>isSome\<close>, \<^verbatim>\<open>isEqual\<close>) is
  missing. The spec describes it as the sum type of presence and absence, which is
  \<open>'a option\<close> here; \<^verbatim>\<open>isEqual(option, value)\<close> holds when the option is present and
  holds the value.
\<close>

definition isEqual :: "'a option \<Rightarrow> 'a \<Rightarrow> bool" where
  "isEqual opt v = (opt = Some v)"

text \<open>One call of the closure \<^verbatim>\<open>reducer(tag)\<close>: its result and the state it leaves.\<close>

definition reducer ::
  "(string \<Rightarrow> bool) \<Rightarrow> string \<Rightarrow> ReducerState \<Rightarrow> Tag \<Rightarrow> string option \<times> ReducerState" where
  "reducer isExact givenTag st tag =
     (let s = sha (commit tag);
          version = tagName tag;
          st1 = (if version = givenTag then st\<lparr>givenTagSha := Some s\<rparr> else st);
          maybeExactTag =
            (if version = givenTag then containsExactTag isExact (versionsBySha st1 s)
             else None)
      in case maybeExactTag of
           Some e \<Rightarrow> (Some e, st1)
         | None \<Rightarrow>
             if \<not> isExact version then (None, st1)
             else if isEqual (givenTagSha st1) s then (Some version, st1)
             else (None,
                   st1\<lparr>versionsBySha := (versionsBySha st1)
                        (s \<mapsto> (case versionsBySha st1 s of
                                   None \<Rightarrow> [version]
                                 | Some associatedVersions \<Rightarrow> associatedVersions @ [version]))\<rparr>))"

text \<open>
  The inner loop of \<^verbatim>\<open>findExactSemanticVersionTag\<close> over the tags of one page: the
  reducer is called on each tag in order and the first present result is returned.
\<close>

fun scanTags ::
  "(string \<Rightarrow> bool) \<Rightarrow> string \<Rightarrow> ReducerState \<Rightarrow> Tag list \<Rightarrow> string option \<times> ReducerState" where
  "scanTags isExact givenTag st [] = (None, st)"
| "scanTags isExact givenTag st (tag # tags) =
     (case reducer isExact givenTag st tag of
        (Some v, st') \<Rightarrow> (Some v, st')
      | (None, st') \<Rightarrow> scanTags isExact givenTag st' tags)"

text \<open>
  The outer loop over the pages that the paginating iterator yields. The number
  counts the pages taken from the iterator.
\<close>

fun scanPages ::
  "(string \<Rightarrow> bool) \<Rightarrow> string \<Rightarrow> ReducerState \<Rightarrow> Tag list list \<Rightarrow> nat \<Rightarrow> string option \<times> nat" where
  "scanPages isExact givenTag st [] n = (None, n)"
| "scanPages isExact givenTag st (page # pages) n =
     (case scanTags isExact givenTag st page of
        (Some v, st') \<Rightarrow> (Some v, Suc n)
      | (None, st') \<Rightarrow> scanPages isExact givenTag st' pages (Suc n))"

text \<open>
  \<^verbatim>\<open>findExactSemanticVersionTag\<close>: the tag list of the repository is the list of
  pages the iterator would yield; the result comes with the number of pages taken.
\<close>

definition findExactSemanticVersionTag ::
  "(string \<Rightarrow> bool) \<Rightarrow> Tag list list \<Rightarrow> RepositorySlug \<Rightarrow> string \<Rightarrow> (error + string) \<times> nat" where
  "findExactSemanticVersionTag isExact pages slug target =
     (if isExact target then (Inr target, 0)
      else
        case scanPages isExact target semanticVersionTagReducer pages 0 of
          (Some v, n) \<Rightarrow> (Inr v, n)
        | (None, n) \<Rightarrow>
            (Inl (Error (''Expected to find an exact semantic version tag matching '' @ target
                         @ '' for '' @ owner slug @ ''/'' @ repository slug)), n))"

section \<open>Release assets (src/fetch.ts)\<close>

text \<open>One entry of \<^verbatim>\<open>releaseMetadata.data.assets\<close>.\<close>

record Asset =
  label :: "string option"
  name :: "string option"
  url :: string

text \<open>
  The result type \<^verbatim>\<open>ReleaseAssetMetadata\<close>; its fields \<^verbatim>\<open>url\<close> and \<^verbatim>\<open>name\<close> are
  \<open>assetUrl\<close> and \<open>assetName\<close> here. Both return statements set \<^verbatim>\<open>name\<close> to
  \<^verbatim>\<open>asset.name || ''\<close>, a string.
\<close>

record ReleaseAssetMetadata =
  binaryName :: "string option"
  assetUrl :: string
  assetName :: string

text \<open>
  JavaScript truthiness of the optional parameter \<^verbatim>\<open>targetDupleUnderscore\<close>: neither
  \<^verbatim>\<open>undefined\<close> nor the empty string.
\<close>

definition truthy :: "string option \<Rightarrow> bool" where
  "truthy u = (case u of None \<Rightarrow> False | Some s \<Rightarrow> s \<noteq> [])"

text \<open>\<^verbatim>\<open>asset.name || ''\<close>.\<close>

definition orEmpty :: "string option \<Rightarrow> string" where
  "orEmpty n = (case n of None \<Rightarrow> [] | Some s \<Rightarrow> s)"

text \<open>\<^verbatim>\<open>formats.join(sep)\<close>.\<close>

fun join :: "string \<Rightarrow> string list \<Rightarrow> string" where
  "join sep [] = []"
| "join sep [x] = x"
| "join sep (x # y # ys) = x @ sep @ join sep (y # ys)"

text \<open>The decimal numeral that a template literal prints for a length.\<close>

fun showNat :: "nat \<Rightarrow> string" where
  "showNat n =
     (if n < 10 then [''0123456789'' ! n]
      else showNat (n div 10) @ [''0123456789'' ! (n mod 10)])"

declare showNat.simps [simp del]

text \<open>
  \<^verbatim>\<open>name.replace(/\.[^.]+$/, '')\<close>: the text from the last dot on is removed when
  at least one character follows that dot.
\<close>

definition stripExtension :: "string \<Rightarrow> string" where
  "stripExtension fileName =
     (let r = rev fileName;
          ext = takeWhile (\<lambda>c. c \<noteq> CHR ''.'') r;
          rest = dropWhile (\<lambda>c. c \<noteq> CHR ''.'') r
      in case rest of
           [] \<Rightarrow> fileName
         | _ # stem \<Rightarrow> if ext = [] then fileName else rev stem)"

text \<open>The helper \<^verbatim>\<open>endsWithPlatform\<close> of the filter callback.\<close>

definition endsWithPlatform :: "string \<Rightarrow> string \<Rightarrow> string option \<Rightarrow> string \<Rightarrow> bool" where
  "endsWithPlatform targetTriple targetDuple targetDupleUnderscore fileName =
     (let filenameWithoutExt = stripExtension fileName
      in endsWith filenameWithoutExt targetTriple
         \<or> endsWith filenameWithoutExt targetDuple
         \<or> (case targetDupleUnderscore of
               None \<Rightarrow> False
             | Some u \<Rightarrow> u \<noteq> [] \<and> endsWith filenameWithoutExt u))"

text \<open>The callback of \<^verbatim>\<open>assets.filter\<close> in the mode without a binary name.\<close>

definition platformMatch :: "string \<Rightarrow> string \<Rightarrow> string option \<Rightarrow> Asset \<Rightarrow> bool" where
  "platformMatch targetTriple targetDuple targetDupleUnderscore asset =
     ((case label asset of
         Some l \<Rightarrow> endsWithPlatform targetTriple targetDuple targetDupleUnderscore l
       | None \<Rightarrow> False)
      \<or> (case name asset of
            Some n \<Rightarrow> endsWithPlatform targetTriple targetDuple targetDupleUnderscore n
          | None \<Rightarrow> False))"

text \<open>
  The callback of \<^verbatim>\<open>assets.find\<close> in the mode with a binary name. The third label
  is the empty string, which is falsy, when no underscore duple was given.
\<close>

definition namedMatch :: "string \<Rightarrow> string \<Rightarrow> string \<Rightarrow> Asset \<Rightarrow> bool" where
  "namedMatch targetLabelTraditional targetLabelDuple targetLabelDupleUnderscore asset =
     ((case label asset of
         Some l \<Rightarrow> l = targetLabelTraditional \<or> l = targetLabelDuple
                   \<or> (targetLabelDupleUnderscore \<noteq> [] \<and> l = targetLabelDupleUnderscore)
       | None \<Rightarrow> False)
      \<or> (case name asset of
            Some n \<Rightarrow> n = targetLabelTraditional \<or> n = targetLabelDuple
                      \<or> (targetLabelDupleUnderscore \<noteq> [] \<and> n = targetLabelDupleUnderscore)
          | None \<Rightarrow> False))"

text \<open>
  \<^verbatim>\<open>findMatchingReleaseAssetMetadata\<close>, on the asset list of the release metadata.
  \<open>requested\<close> is the parameter \<^verbatim>\<open>binaryName\<close>. In the last branch \<^verbatim>\<open>asset.name!\<close>
  is \<^verbatim>\<open>undefined\<close> when the asset has no name, and \<^verbatim>\<open>stripTargetTriple(undefined)\<close>
  raises a \<^verbatim>\<open>TypeError\<close> at its first \<^verbatim>\<open>value.replace\<close>.
\<close>

definition findMatchingReleaseAssetMetadata ::
  "Asset list \<Rightarrow> RepositorySlug \<Rightarrow> string option \<Rightarrow> string \<Rightarrow> string \<Rightarrow> string
     \<Rightarrow> string option \<Rightarrow> error + ReleaseAssetMetadata" where
  "findMatchingReleaseAssetMetadata assets slug requested tag targetTriple targetDuple
       targetDupleUnderscore =
     (case requested of
        Some b \<Rightarrow>
          (let targetLabelTraditional = b @ ''-'' @ targetTriple;
               targetLabelDuple = b @ ''-'' @ targetDuple;
               targetLabelDupleUnderscore =
                 (case targetDupleUnderscore of
                    None \<Rightarrow> []
                  | Some u \<Rightarrow> if u \<noteq> [] then b @ ''_'' @ u else [])
           in case find (namedMatch targetLabelTraditional targetLabelDuple
                           targetLabelDupleUnderscore) assets of
                None \<Rightarrow>
                  (let formats = [targetLabelTraditional, targetLabelDuple]
                         @ (if truthy targetDupleUnderscore
                            then [targetLabelDupleUnderscore] else [])
                   in Inl (Error (''Expected to find asset in release '' @ owner slug @ ''/''
                         @ repository slug @ ''@'' @ tag @ '' with label or name ''
                         @ join '' or '' formats)))
              | Some asset \<Rightarrow>
                  Inr \<lparr>binaryName = Some b, assetUrl = url asset,
                       assetName = orEmpty (name asset)\<rparr>)
      | None \<Rightarrow>
          (let matchingAssets =
                 filter (platformMatch targetTriple targetDuple targetDupleUnderscore) assets;
               formats = [targetTriple, targetDuple]
                 @ (case targetDupleUnderscore of
                      None \<Rightarrow> []
                    | Some u \<Rightarrow> if u \<noteq> [] then [u] else [])
           in case matchingAssets of
                [] \<Rightarrow>
                  Inl (Error (''Expected to find asset in release '' @ owner slug @ ''/''
                    @ repository slug @ ''@'' @ tag
                    @ '' with label or name containing platform identifier ''
                    @ join '' or '' formats
                    @ '' at the end of the filename (before the extension)''))
              | asset # others \<Rightarrow>
                  if length matchingAssets > 1 then
                    Inl (Error (''Ambiguous targets: expected to find a single asset in release ''
                      @ owner slug @ ''/'' @ repository slug @ ''@'' @ tag
                      @ '' containing platform identifier '' @ join '' or '' formats
                      @ '' at the end of the filename (before the extension), but found ''
                      @ showNat (length matchingAssets) @ ''.'' @ [CHR 0x0A, CHR 0x0A]
                      @ ''To resolve, specify the desired binary with the target format ''
                      @ owner slug @ ''/'' @ repository slug @ ''/<binary-name>@'' @ tag))
                  else
                    (let matchField =
                           (case label asset of
                              Some l \<Rightarrow>
                                if endsWith l targetTriple \<or> endsWith l targetDuple
                                then Some l else name asset
                            | None \<Rightarrow> name asset)
                     in case matchField of
                          None \<Rightarrow> Inl TypeError
                        | Some field \<Rightarrow>
                            Inr \<lparr>binaryName = stripTargetTriple field, assetUrl = url asset,
                                 assetName = orEmpty (name asset)\<rparr>)))"

section \<open>Target specifications (src/parse.ts, not among the sources)\<close>

text \<open>
  Modelled from the spec: the record \<^verbatim>\<open>TargetRelease\<close> of the missing \<^verbatim>\<open>types.ts\<close>, with
  the fields the tests build it from; its fields \<^verbatim>\<open>binaryName\<close> and
  \<^verbatim>\<open>tag\<close> are \<open>targetBinaryName\<close> and \<open>targetTag\<close> here.
\<close>

record TargetRelease =
  slug :: RepositorySlug
  targetBinaryName :: "string option"
  targetTag :: string
  checksum :: "string option"

text \<open>
  Modelled from the spec: the diagnostics of a failed parse (\<^verbatim>\<open>either.ts\<close> and
  \<^verbatim>\<open>parse.ts\<close> are missing). The spec gives no text for them; a diagnostic here names
  what failed.
\<close>

datatype diagnostic = NoTargets | MalformedTarget string

text \<open>
  Modelled from the spec: white space is space, tab, line feed, vertical tab, form
  feed and carriage return; trimming removes it at both ends.
\<close>

definition isSpace :: "char \<Rightarrow> bool" where
  "isSpace c = (c \<in> set [CHR 0x20, CHR 0x09, CHR 0x0A, CHR 0x0B, CHR 0x0C, CHR 0x0D])"

definition trim :: "string \<Rightarrow> string" where
  "trim s = rev (dropWhile isSpace (rev (dropWhile isSpace s)))"

text \<open>
  Modelled from the spec: splitting on runs of white space gives the maximal runs of
  characters that are not white space, in order.
\<close>

fun splitWhitespace :: "string \<Rightarrow> string list" where
  "splitWhitespace [] = []"
| "splitWhitespace (c # cs) =
     (if isSpace c then splitWhitespace cs
      else (case cs of
              [] \<Rightarrow> [[c]]
            | d # _ \<Rightarrow>
                if isSpace d then [c] # splitWhitespace cs
                else (case splitWhitespace cs of
                        [] \<Rightarrow> [[c]]
                      | w # ws \<Rightarrow> (c # w) # ws)))"

text \<open>
  Modelled from the spec: the characters of an owner, repository or binary name, and
  those of a checksum.
\<close>

definition isNameChar :: "char \<Rightarrow> bool" where
  "isNameChar c = (c \<noteq> CHR ''/'' \<and> c \<noteq> CHR ''@'' \<and> \<not> isSpace c)"

definition isLowerHex :: "char \<Rightarrow> bool" where
  "isLowerHex c = (c \<in> set ''0123456789abcdef'')"

text \<open>
  Modelled from the spec: the optional checksum part of a token (the literal
  \<^verbatim>\<open>sha256-\<close> and 64 lowercase hexadecimal digits), given the text after the first
  colon when there is one: \<open>None\<close> for a malformed part, \<open>Some None\<close> for no checksum.
\<close>

definition parseChecksum :: "string option \<Rightarrow> string option option" where
  "parseChecksum afterColon =
     (case afterColon of
        None \<Rightarrow> Some None
      | Some cs \<Rightarrow>
          if take 7 cs = ''sha256-'' \<and> length (drop 7 cs) = 64
             \<and> list_all isLowerHex (drop 7 cs)
          then Some (Some (drop 7 cs)) else None)"

text \<open>
  Modelled from the spec: \<^verbatim>\<open>parse.ts\<close> is missing. The spec's grammar of a token is
  \<^verbatim>\<open>owner "/" repository ["/" binaryName] "@" tag [":sha256-" checksum]\<close>, where
  owner, repository and binaryName are non-empty and free of \<^verbatim>\<open>/\<close>, \<^verbatim>\<open>@\<close> and
  white space, the tag is a semantic version and the checksum is 64 lowercase
  hexadecimal digits. No name holds \<^verbatim>\<open>@\<close> and no tag holds a colon, so the first
  \<^verbatim>\<open>@\<close> ends the names and the first colon after it ends the tag.
\<close>

definition parseTargetRelease :: "string \<Rightarrow> TargetRelease option" where
  "parseTargetRelease token =
     (let (names, afterAt) = breakAt (CHR ''@'') token
      in case afterAt of
           None \<Rightarrow> None
         | Some rest \<Rightarrow>
             (let (tagText, afterColon) = breakAt (CHR '':'') rest;
                  parts = splitOn (CHR ''/'') names
              in if list_all (\<lambda>p. p \<noteq> [] \<and> list_all isNameChar p) parts
                    \<and> isSemanticVersion tagText
                 then (case (parts, parseChecksum afterColon) of
                         ([ownerText, repositoryText], Some hash) \<Rightarrow>
                           Some \<lparr>slug = \<lparr>owner = ownerText, repository = repositoryText\<rparr>,
                                 targetBinaryName = None, targetTag = tagText,
                                 checksum = hash\<rparr>
                       | ([ownerText, repositoryText, binaryText], Some hash) \<Rightarrow>
                           Some \<lparr>slug = \<lparr>owner = ownerText, repository = repositoryText\<rparr>,
                                 targetBinaryName = Some binaryText, targetTag = tagText,
                                 checksum = hash\<rparr>
                       | _ \<Rightarrow> None)
                 else None))"

text \<open>
  Modelled from the spec: \<^verbatim>\<open>parseTargetReleases\<close> of the missing \<^verbatim>\<open>parse.ts\<close> trims
  the text, splits it on runs of white space and parses each token on its own; the
  whole parse fails, with at least one diagnostic, when a token fails or when there
  is no token, and otherwise returns the records in the order of the tokens.
\<close>

definition parseTargetReleases :: "string \<Rightarrow> diagnostic list + TargetRelease list" where
  "parseTargetReleases text =
     (let tokens = splitWhitespace (trim text)
      in if tokens = [] then Inl [NoTargets]
         else (case those (map parseTargetRelease tokens) of
                 Some releases \<Rightarrow> Inr releases
               | None \<Rightarrow>
                   Inl (map MalformedTarget
                          (filter (\<lambda>t. parseTargetRelease t = None) tokens))))"

section \<open>Platform identification of the installer (src/index.ts)\<close>

text \<open>
  The first statements of \<^verbatim>\<open>installGitHubReleaseBinary\<close>, the only caller of the three
  functions: on the architecture and platform of the machine it calls
  \<^verbatim>\<open>getTargetTriple\<close>, then \<^verbatim>\<open>getTargetDuple\<close>, then \<^verbatim>\<open>getTargetDupleUnderscore\<close>; the
  first error thrown ends the installation. The result is (targetTriple,
  targetDuple, targetDupleUnderscore).
\<close>

definition installTargets :: "string \<Rightarrow> string \<Rightarrow> error + (string \<times> string \<times> string)" where
  "installTargets currentArch currentPlatform =
     (case getTargetTriple currentArch currentPlatform of
        Inl e \<Rightarrow> Inl e
      | Inr targetTriple \<Rightarrow>
          (case getTargetDuple currentArch currentPlatform of
             Inl e \<Rightarrow> Inl e
           | Inr targetDuple \<Rightarrow>
               (case getTargetDupleUnderscore currentArch currentPlatform of
                  Inl e \<Rightarrow> Inl e
                | Inr targetDupleUnderscore \<Rightarrow>
                    Inr (targetTriple, targetDuple, targetDupleUnderscore))))"

section \<open>Properties of the platform identifiers\<close>

lemma strip_one_triple:
  assumes "i < length ALL_TARGET_TRIPLES"
    and "\<forall>t'\<in>set (drop (Suc i) ALL_TARGET_TRIPLES). \<not> endsWith nm (CHR ''-'' # t')"
  shows "stripTargetTriple (nm @ ''-'' @ ALL_TARGET_TRIPLES ! i) = Some nm"
proof -
  have "i = 0 \<or> i = 1 \<or> i = 2 \<or> i = 3"
    using assms(1) unfolding ALL_TARGET_TRIPLES_def by simp arith
  then show ?thesis
    using assms(2)
    apply (elim disjE)
       apply (simp_all add: stripTargetTriple_def ALL_TARGET_TRIPLES_def TARGET_DUPLES_def
        replaceSuffix_def endsWith_def suffix_to_prefix)
    done
qed

lemma strip_one_duple:
  assumes "j < length TARGET_DUPLES"
    and "sep = CHR ''-'' \<or> sep = CHR ''_''"
    and "\<forall>d'\<in>set (drop (Suc j) TARGET_DUPLES).
           \<not> endsWith nm (CHR ''-'' # d') \<and> \<not> endsWith nm (CHR ''_'' # d')"
  shows "stripTargetTriple (nm @ sep # TARGET_DUPLES ! j) = Some nm"
proof -
  have "j = 0 \<or> j = 1 \<or> j = 2 \<or> j = 3 \<or> j = 4 \<or> j = 5 \<or> j = 6 \<or> j = 7"
    using assms(1) unfolding TARGET_DUPLES_def by simp arith
  then show ?thesis
    using assms(2,3)
    apply (elim disjE)
           apply (simp_all add: stripTargetTriple_def ALL_TARGET_TRIPLES_def TARGET_DUPLES_def
        replaceSuffix_def replaceDupleSuffix_def endsWith_def suffix_to_prefix)
    done
qed

text \<open>
  Claim C3, as the code has it. Let \<open>t\<close> be the triple at index \<open>i\<close> of the list of
  triples. For every string \<open>nm\<close> that does not end in a hyphen and a triple standing
  after \<open>t\<close> in that list, \<^verbatim>\<open>stripTargetTriple(nm + "-" + t)\<close> is present and equal to
  \<open>nm\<close>. Likewise for the duple at index \<open>j\<close> of the list of duples, appended after
  a hyphen or an underscore, and every \<open>nm\<close> that does not end in a hyphen or
  underscore and a duple standing after it in that list. The restriction is
  needed: each of the two \<^verbatim>\<open>reduce\<close> calls goes on through the rest of its list after
  a first removal, so a suffix that stands later in the list is removed in the same
  call.
\<close>

theorem stripTargetTriple_removes_appended_suffix:
  "(i < length ALL_TARGET_TRIPLES
      \<and> (\<forall>t'\<in>set (drop (Suc i) ALL_TARGET_TRIPLES). \<not> endsWith nm (CHR ''-'' # t'))
     \<longrightarrow> stripTargetTriple (nm @ ''-'' @ ALL_TARGET_TRIPLES ! i) = Some nm)
   \<and> (j < length TARGET_DUPLES \<and> (sep = CHR ''-'' \<or> sep = CHR ''_'')
      \<and> (\<forall>d'\<in>set (drop (Suc j) TARGET_DUPLES).
            \<not> endsWith nm (CHR ''-'' # d') \<and> \<not> endsWith nm (CHR ''_'' # d'))
     \<longrightarrow> stripTargetTriple (nm @ sep # TARGET_DUPLES ! j) = Some nm)"
  using strip_one_triple [of i nm] strip_one_duple [of j sep nm] by blast

theorem stripTargetTriple_removes_appended_suffix_witness:
  "ALL_TARGET_TRIPLES ! 2 = ''x86_64-apple-darwin''
   \<and> stripTargetTriple (''tool-aarch64-apple-darwin'' @ ''-'' @ ''x86_64-apple-darwin'')
       = Some ''tool-aarch64-apple-darwin''
   \<and> TARGET_DUPLES ! 4 = ''linux_amd64''
   \<and> stripTargetTriple (''tool-aarch64-apple-darwin'' @ CHR ''_'' # ''linux_amd64'')
       = Some ''tool-aarch64-apple-darwin''"
proof -
  have h1: "(2::nat) < length ALL_TARGET_TRIPLES"
    by (simp add: ALL_TARGET_TRIPLES_def)
  have h2: "\<forall>t'\<in>set (drop (Suc 2) ALL_TARGET_TRIPLES).
              \<not> endsWith ''tool-aarch64-apple-darwin'' (CHR ''-'' # t')"
    by (simp add: ALL_TARGET_TRIPLES_def endsWith_def suffix_to_prefix)
  have h3: "(4::nat) < length TARGET_DUPLES"
    by (simp add: TARGET_DUPLES_def)
  have h4: "\<forall>d'\<in>set (drop (Suc 4) TARGET_DUPLES).
              \<not> endsWith ''tool-aarch64-apple-darwin'' (CHR ''-'' # d')
              \<and> \<not> endsWith ''tool-aarch64-apple-darwin'' (CHR ''_'' # d')"
    by (simp add: TARGET_DUPLES_def endsWith_def suffix_to_prefix)
  have n1: "ALL_TARGET_TRIPLES ! 2 = ''x86_64-apple-darwin''"
    by (simp add: ALL_TARGET_TRIPLES_def)
  have n2: "TARGET_DUPLES ! 4 = ''linux_amd64''"
    by (simp add: TARGET_DUPLES_def)
  show ?thesis
    using h1 h2 h3 h4 n1 n2
      stripTargetTriple_removes_appended_suffix
        [of 2 "''tool-aarch64-apple-darwin''" 4 "CHR ''_''"]
    by simp
qed

text \<open>
  The claim as the spec words it fails: with \<open>nm\<close> ending in a triple that stands
  later in the list than the appended one, both are removed, and likewise for duples.
\<close>

theorem stripTargetTriple_removes_two_suffixes:
  "''aarch64-apple-darwin'' \<in> set ALL_TARGET_TRIPLES
   \<and> stripTargetTriple (''foo-aarch64-unknown-linux-musl'' @ ''-'' @ ''aarch64-apple-darwin'')
       = Some ''foo''
   \<and> stripTargetTriple (''foo-aarch64-unknown-linux-musl'' @ ''-'' @ ''aarch64-apple-darwin'')
       \<noteq> Some ''foo-aarch64-unknown-linux-musl''
   \<and> ''linux-amd64'' \<in> set TARGET_DUPLES
   \<and> stripTargetTriple (''foo-darwin-arm64'' @ ''-'' @ ''linux-amd64'') = Some ''foo''
   \<and> stripTargetTriple (''foo-darwin-arm64'' @ ''-'' @ ''linux-amd64'')
       \<noteq> Some ''foo-darwin-arm64''"
  by code_simp

lemma getTargetDuple_fails_on_other_platforms:
  assumes "platform \<noteq> ''darwin''" and "platform \<noteq> ''linux''"
  shows "getTargetDuple arch platform
           = Inl (Error (''Unsupported platform '' @ platform @ '' for target duple conversion''))
         \<and> getTargetDupleUnderscore arch platform
           = Inl (Error (''Unsupported platform '' @ platform @ '' for target duple conversion''))"
  using assms by (simp add: getTargetDuple_def getTargetDupleUnderscore_def)

lemma getTargetDuple_returns_on_supported_platforms:
  assumes "platform = ''darwin'' \<or> platform = ''linux''"
  shows "getTargetDuple arch platform
           = Inr (platform @ ''-'' @ (if arch = ''arm64'' then ''arm64'' else ''amd64''))
         \<and> getTargetDupleUnderscore arch platform
           = Inr (platform @ ''_'' @ (if arch = ''arm64'' then ''arm64'' else ''amd64''))"
  using assms by (auto simp: getTargetDuple_def getTargetDupleUnderscore_def)

lemma getTargetTriple_fails_off_grid:
  assumes "(arch \<noteq> ''arm64'' \<and> arch \<noteq> ''x64'') \<or> (platform \<noteq> ''darwin'' \<and> platform \<noteq> ''linux'')"
  shows "isl (getTargetTriple arch platform)"
  using assms by (auto simp: getTargetTriple_def architectureLabel_def platformLabel_def)

lemma installTargets_on_grid:
  assumes "arch = ''arm64'' \<or> arch = ''x64''" and "platform = ''darwin'' \<or> platform = ''linux''"
  shows "installTargets arch platform
         = Inr ((if arch = ''arm64'' then ''aarch64'' else ''x86_64'') @ ''-''
                  @ (if platform = ''darwin'' then ''apple-darwin'' else ''unknown-linux-musl''),
                platform @ ''-'' @ (if arch = ''arm64'' then ''arm64'' else ''amd64''),
                platform @ ''_'' @ (if arch = ''arm64'' then ''arm64'' else ''amd64''))"
  using assms
  by (auto simp: installTargets_def getTargetTriple_def architectureLabel_def platformLabel_def
      getTargetDuple_def getTargetDupleUnderscore_def)

text \<open>
  Claim C7, as the code has it. For every architecture and operating system outside
  \<open>{arm64, x64} \<times> {darwin, linux}\<close> the platform identification of the installer
  fails with an error and produces no duple, the unsupported architectures being
  refused by \<^verbatim>\<open>getTargetTriple\<close>, which is called first; inside that set it returns
  the triple and both duples, \<^verbatim>\<open>x64\<close> spelled \<^verbatim>\<open>amd64\<close>. \<^verbatim>\<open>getTargetDuple\<close> and
  \<^verbatim>\<open>getTargetDupleUnderscore\<close> themselves fail exactly for the operating systems
  other than darwin and linux; on darwin and linux they do not look at the
  architecture beyond comparing it with \<^verbatim>\<open>arm64\<close>, and return the amd64 duple for
  every other value.
\<close>

theorem getTargetDuple_failure_cases:
  "((arch \<noteq> ''arm64'' \<and> arch \<noteq> ''x64'') \<or> (platform \<noteq> ''darwin'' \<and> platform \<noteq> ''linux'')
      \<longrightarrow> isl (installTargets arch platform))
   \<and> ((arch = ''arm64'' \<or> arch = ''x64'') \<and> (platform = ''darwin'' \<or> platform = ''linux'')
      \<longrightarrow> installTargets arch platform
          = Inr ((if arch = ''arm64'' then ''aarch64'' else ''x86_64'') @ ''-''
                   @ (if platform = ''darwin'' then ''apple-darwin'' else ''unknown-linux-musl''),
                 platform @ ''-'' @ (if arch = ''arm64'' then ''arm64'' else ''amd64''),
                 platform @ ''_'' @ (if arch = ''arm64'' then ''arm64'' else ''amd64'')))
   \<and> (platform \<noteq> ''darwin'' \<and> platform \<noteq> ''linux''
      \<longrightarrow> getTargetDuple arch platform
            = Inl (Error (''Unsupported platform '' @ platform @ '' for target duple conversion''))
          \<and> getTargetDupleUnderscore arch platform
            = Inl (Error (''Unsupported platform '' @ platform @ '' for target duple conversion'')))
   \<and> (platform = ''darwin'' \<or> platform = ''linux''
      \<longrightarrow> getTargetDuple arch platform
            = Inr (platform @ ''-'' @ (if arch = ''arm64'' then ''arm64'' else ''amd64''))
          \<and> getTargetDupleUnderscore arch platform
            = Inr (platform @ ''_'' @ (if arch = ''arm64'' then ''arm64'' else ''amd64'')))"
proof -
  have "isl (installTargets arch platform)"
    if "(arch \<noteq> ''arm64'' \<and> arch \<noteq> ''x64'') \<or> (platform \<noteq> ''darwin'' \<and> platform \<noteq> ''linux'')"
    using getTargetTriple_fails_off_grid [OF that]
    by (cases "getTargetTriple arch platform") (simp_all add: installTargets_def)
  then show ?thesis
    using installTargets_on_grid [of arch platform]
      getTargetDuple_fails_on_other_platforms [of platform arch]
      getTargetDuple_returns_on_supported_platforms [of platform arch]
    by blast
qed

theorem getTargetDuple_failure_cases_witness:
  "isl (installTargets ''ia32'' ''linux'')
   \<and> isl (installTargets ''x64'' ''win32'')
   \<and> installTargets ''x64'' ''linux''
       = Inr (''x86_64-unknown-linux-musl'', ''linux-amd64'', ''linux_amd64'')
   \<and> installTargets ''arm64'' ''darwin''
       = Inr (''aarch64-apple-darwin'', ''darwin-arm64'', ''darwin_arm64'')
   \<and> getTargetDuple ''x64'' ''win32''
       = Inl (Error ''Unsupported platform win32 for target duple conversion'')
   \<and> getTargetDupleUnderscore ''x64'' ''win32''
       = Inl (Error ''Unsupported platform win32 for target duple conversion'')
   \<and> getTargetDuple ''x64'' ''darwin'' = Inr ''darwin-amd64''
   \<and> getTargetDupleUnderscore ''arm64'' ''linux'' = Inr ''linux_arm64''"
  using getTargetDuple_failure_cases [of "''ia32''" "''linux''"]
    getTargetDuple_failure_cases [of "''x64''" "''win32''"]
    getTargetDuple_failure_cases [of "''x64''" "''linux''"]
    getTargetDuple_failure_cases [of "''arm64''" "''darwin''"]
    getTargetDuple_failure_cases [of "''x64''" "''darwin''"]
    getTargetDuple_failure_cases [of "''arm64''" "''linux''"]
  by simp

text \<open>
  The claim as the spec words it fails for the two functions on their own: for the
  unsupported architecture \<^verbatim>\<open>ia32\<close> on linux both return the amd64 duple, where
  \<^verbatim>\<open>getTargetTriple\<close> fails.
\<close>

theorem getTargetDuple_accepts_unsupported_architecture:
  "getTargetDuple ''ia32'' ''linux'' = Inr ''linux-amd64''
   \<and> getTargetDupleUnderscore ''ia32'' ''linux'' = Inr ''linux_amd64''
   \<and> getTargetTriple ''ia32'' ''linux''
       = Inl (Error ''Unsupported architecture ia32 -- only aarch64 and x86_64 currently supported'')"
  by (simp add: getTargetDuple_def getTargetDupleUnderscore_def getTargetTriple_def
      architectureLabel_def)

section \<open>Properties of the version resolution\<close>

lemma find_snoc:
  "find P (xs @ [y]) =
     (case find P xs of Some x \<Rightarrow> Some x | None \<Rightarrow> (if P y then Some y else None))"
  by (induction xs) auto

lemma find_SomeD: "find P xs = Some x \<Longrightarrow> x \<in> set xs \<and> P x"
  by (induction xs) (auto split: if_splits)

lemma scanTags_append:
  "scanTags isExact r st (xs @ ys) =
     (case scanTags isExact r st xs of
        (Some v, st') \<Rightarrow> (Some v, st')
      | (None, st') \<Rightarrow> scanTags isExact r st' ys)"
  by (induction xs arbitrary: st) (auto split: prod.splits option.splits)

text \<open>Page boundaries do not matter to the result.\<close>

lemma scanPages_concat:
  "fst (scanPages isExact r st pages n) = fst (scanTags isExact r st (concat pages))"
  by (induction pages arbitrary: st n)
    (auto simp: scanTags_append split: prod.splits option.splits)

text \<open>
  Once the given tag has been seen on commit \<open>S\<close> with no exact tag recorded for
  \<open>S\<close>, the scan returns the next exact tag on \<open>S\<close>.
\<close>

lemma scanTags_after_given:
  assumes "\<not> isExact r"
    and "givenTagSha st = Some S"
    and "versionsBySha st S = None"
    and "\<forall>t\<in>set tags. tagName t = r \<longrightarrow> sha (commit t) = S"
  shows "fst (scanTags isExact r st tags) =
           map_option tagName (find (\<lambda>t. isExact (tagName t) \<and> sha (commit t) = S) tags)"
  using assms
proof (induction tags arbitrary: st)
  case Nil
  then show ?case by simp
next
  case (Cons t tags)
  show ?case
  proof (cases "tagName t = r")
    case True
    with Cons.prems have s: "sha (commit t) = S" by simp
    have step: "reducer isExact r st t = (None, st)"
      using True s Cons.prems by (cases st) (simp add: reducer_def isEqual_def containsExactTag_def Let_def)
    show ?thesis using step True Cons by simp
  next
    case False
    show ?thesis
    proof (cases "isExact (tagName t)")
      case ne: False
      have step: "reducer isExact r st t = (None, st)"
        using False ne by (simp add: reducer_def isEqual_def Let_def)
      show ?thesis using step ne Cons by simp
    next
      case ex: True
      show ?thesis
      proof (cases "sha (commit t) = S")
        case True
        have step: "reducer isExact r st t = (Some (tagName t), st)"
          using False ex True Cons.prems by (simp add: reducer_def isEqual_def Let_def)
        show ?thesis using step ex True by simp
      next
        case ns: False
        obtain st' where step: "reducer isExact r st t = (None, st')"
          and g: "givenTagSha st' = Some S" and m: "versionsBySha st' S = None"
          using False ex ns Cons.prems by (simp add: reducer_def isEqual_def Let_def)
        have "fst (scanTags isExact r st' tags) =
           map_option tagName (find (\<lambda>t. isExact (tagName t) \<and> sha (commit t) = S) tags)"
          using Cons.IH[OF Cons.prems(1) g m] Cons.prems(4) by simp
        then show ?thesis using step ns by simp
      qed
    qed
  qed
qed

text \<open>
  Before the given tag has been seen, every exact tag is recorded under its sha;
  the scan returns nothing until the given tag arrives, then the first exact tag
  recorded for its commit if there is one, and else the next exact tag on it.
\<close>

lemma scanTags_before_given:
  assumes "\<not> isExact r"
    and "givenTagSha st = None"
    and "versionsBySha st S \<noteq> None \<longrightarrow> containsExactTag isExact (versionsBySha st S) \<noteq> None"
    and "\<forall>t\<in>set tags. tagName t = r \<longrightarrow> sha (commit t) = S"
  shows "fst (scanTags isExact r st tags) =
           (if r \<in> tagName ` set tags then
              (case containsExactTag isExact (versionsBySha st S) of
                 Some e \<Rightarrow> Some e
               | None \<Rightarrow> map_option tagName
                           (find (\<lambda>t. isExact (tagName t) \<and> sha (commit t) = S) tags))
            else None)"
  using assms
proof (induction tags arbitrary: st)
  case Nil
  then show ?case by simp
next
  case (Cons t tags)
  let ?P = "\<lambda>t. isExact (tagName t) \<and> sha (commit t) = S"
  let ?f0 = "containsExactTag isExact (versionsBySha st S)"
  have rest: "\<forall>t\<in>set tags. tagName t = r \<longrightarrow> sha (commit t) = S"
    using Cons.prems(4) by simp
  show ?case
  proof (cases "tagName t = r")
    case True
    with Cons.prems have s: "sha (commit t) = S" by simp
    have nE: "\<not> isExact (tagName t)" using True Cons.prems(1) by simp
    show ?thesis
    proof (cases ?f0)
      case (Some e)
      have step: "reducer isExact r st t = (Some e, st\<lparr>givenTagSha := Some S\<rparr>)"
        using True s Some by (simp add: reducer_def isEqual_def Let_def)
      show ?thesis using step True Some by simp
    next
      case None
      then have m: "versionsBySha st S = None" using Cons.prems(3) by blast
      let ?st1 = "st\<lparr>givenTagSha := Some S\<rparr>"
      have step: "reducer isExact r st t = (None, ?st1)"
        using True s None Cons.prems(1) by (simp add: reducer_def isEqual_def Let_def)
      have "fst (scanTags isExact r ?st1 tags) = map_option tagName (find ?P tags)"
        using scanTags_after_given[of isExact r ?st1 S tags] Cons.prems(1) rest m by simp
      then show ?thesis using step True None nE by simp
    qed
  next
    case False
    show ?thesis
    proof (cases "isExact (tagName t)")
      case ne: False
      have step: "reducer isExact r st t = (None, st)"
        using False ne by (simp add: reducer_def isEqual_def Let_def)
      have "fst (scanTags isExact r st tags) =
           (if r \<in> tagName ` set tags then
              (case ?f0 of Some e \<Rightarrow> Some e | None \<Rightarrow> map_option tagName (find ?P tags))
            else None)"
        using Cons.IH[OF Cons.prems(1) Cons.prems(2) Cons.prems(3) rest] .
      then show ?thesis using step ne False by (auto split: option.splits)
    next
      case ex: True
      let ?s = "sha (commit t)"
      let ?st' = "st\<lparr>versionsBySha := (versionsBySha st)
                        (?s \<mapsto> (case versionsBySha st ?s of
                                   None \<Rightarrow> [tagName t]
                                 | Some vs \<Rightarrow> vs @ [tagName t]))\<rparr>"
      have step: "reducer isExact r st t = (None, ?st')"
        using False ex Cons.prems(2) by (simp add: reducer_def isEqual_def Let_def)
      have g': "givenTagSha ?st' = None" using Cons.prems(2) by simp
      show ?thesis
      proof (cases "?s = S")
        case ns: False
        have same: "versionsBySha ?st' S = versionsBySha st S" using ns by simp
        have "fst (scanTags isExact r ?st' tags) =
           (if r \<in> tagName ` set tags then
              (case containsExactTag isExact (versionsBySha ?st' S) of Some e \<Rightarrow> Some e
               | None \<Rightarrow> map_option tagName (find ?P tags))
            else None)"
          using Cons.IH[OF Cons.prems(1) g' _ rest] Cons.prems(3) same by simp
        then show ?thesis using step ns False same by (auto split: option.splits)
      next
        case True
        have f': "containsExactTag isExact (versionsBySha ?st' S) =
                    (case ?f0 of Some e \<Rightarrow> Some e | None \<Rightarrow> Some (tagName t))"
          using True ex Cons.prems(3)
          by (auto simp: containsExactTag_def find_snoc split: option.splits)
        have inv': "versionsBySha ?st' S \<noteq> None \<longrightarrow>
                      containsExactTag isExact (versionsBySha ?st' S) \<noteq> None"
          using f' by (simp split: option.splits)
        have "fst (scanTags isExact r ?st' tags) =
           (if r \<in> tagName ` set tags then
              (case containsExactTag isExact (versionsBySha ?st' S) of Some e \<Rightarrow> Some e
               | None \<Rightarrow> map_option tagName (find ?P tags))
            else None)"
          using Cons.IH[OF Cons.prems(1) g' inv' rest] .
        then show ?thesis using step True ex False f' by (auto split: option.splits)
      qed
    qed
  qed
qed

text \<open>
  Claim C1, as the code has it. Let \<open>r\<close> be a reference that is not an exact
  version, and let the tag list (all pages, in order) hold a tag named \<open>r\<close>, every
  tag named \<open>r\<close> pointing at commit \<open>S\<close>, and an exact-version tag pointing at
  \<open>S\<close>. Then \<^verbatim>\<open>findExactSemanticVersionTag\<close>, which calls the reducer on each tag
  in stream order, returns the first exact-version tag of the stream that points at
  \<open>S\<close>, wherever the tag \<open>r\<close> stands relative to it; this is \<open>e\<close> whenever \<open>e\<close>
  is the only exact version among the tags on \<open>S\<close>.
\<close>

theorem findExactSemanticVersionTag_first_exact_on_commit:
  assumes "\<not> isExact r"
    and "\<forall>t\<in>set (concat pages). tagName t = r \<longrightarrow> sha (commit t) = S"
    and "\<exists>t\<in>set (concat pages). tagName t = r"
    and "\<exists>t\<in>set (concat pages). isExact (tagName t) \<and> sha (commit t) = S"
  shows "(\<exists>t. find (\<lambda>t. isExact (tagName t) \<and> sha (commit t) = S) (concat pages) = Some t
              \<and> fst (findExactSemanticVersionTag isExact pages sl r) = Inr (tagName t))
         \<and> ((\<forall>t\<in>set (concat pages). isExact (tagName t) \<and> sha (commit t) = S \<longrightarrow> tagName t = e)
              \<longrightarrow> fst (findExactSemanticVersionTag isExact pages sl r) = Inr e)"
proof -
  let ?P = "\<lambda>t. isExact (tagName t) \<and> sha (commit t) = S"
  let ?tags = "concat pages"
  obtain t0 where t0: "find ?P ?tags = Some t0"
    using assms(4) by (cases "find ?P ?tags") (auto simp: find_None_iff)
  have mem: "r \<in> tagName ` set ?tags" using assms(3) by force
  have "fst (scanTags isExact r semanticVersionTagReducer ?tags) = Some (tagName t0)"
    using scanTags_before_given[of isExact r semanticVersionTagReducer S ?tags]
      assms(1) assms(2) mem t0
    by (simp add: semanticVersionTagReducer_def containsExactTag_def)
  then have "fst (scanPages isExact r semanticVersionTagReducer pages 0) = Some (tagName t0)"
    by (simp add: scanPages_concat)
  then have res: "fst (findExactSemanticVersionTag isExact pages sl r) = Inr (tagName t0)"
    using assms(1)
    by (auto simp: findExactSemanticVersionTag_def split: prod.splits option.splits)
  have t0P: "t0 \<in> set ?tags \<and> ?P t0"
    using find_SomeD[OF t0] .
  show ?thesis using t0 res t0P by auto
qed

lemmas semver_eval =
  isExactSemanticVersion_def semanticVersionComponents_def breakAt_def dotSeparated_def
  isDigit_def isIdentChar_def

theorem findExactSemanticVersionTag_first_exact_on_commit_witness:
  "fst (findExactSemanticVersionTag isExactSemanticVersion
          [[\<lparr>tagName = ''v1'', commit = \<lparr>sha = ''8a4600be96d2ec013209042458ce97a9652fcc46''\<rparr>\<rparr>,
            \<lparr>tagName = ''v0.9.0'', commit = \<lparr>sha = ''0123456789abcdef0123456789abcdef01234567''\<rparr>\<rparr>],
           [\<lparr>tagName = ''v1.2.3'', commit = \<lparr>sha = ''8a4600be96d2ec013209042458ce97a9652fcc46''\<rparr>\<rparr>]]
          \<lparr>owner = ''o'', repository = ''p''\<rparr> ''v1'') = Inr ''v1.2.3''
   \<and> fst (findExactSemanticVersionTag isExactSemanticVersion
          [[\<lparr>tagName = ''v1.2.3'', commit = \<lparr>sha = ''8a4600be96d2ec013209042458ce97a9652fcc46''\<rparr>\<rparr>,
            \<lparr>tagName = ''v0.9.0'', commit = \<lparr>sha = ''0123456789abcdef0123456789abcdef01234567''\<rparr>\<rparr>],
           [\<lparr>tagName = ''v1'', commit = \<lparr>sha = ''8a4600be96d2ec013209042458ce97a9652fcc46''\<rparr>\<rparr>]]
          \<lparr>owner = ''o'', repository = ''p''\<rparr> ''v1'') = Inr ''v1.2.3''"
proof -
  let ?S = "''8a4600be96d2ec013209042458ce97a9652fcc46''"
  let ?T = "''0123456789abcdef0123456789abcdef01234567''"
  let ?given = "\<lparr>tagName = ''v1'', commit = \<lparr>sha = ?S\<rparr>\<rparr>"
  let ?other = "\<lparr>tagName = ''v0.9.0'', commit = \<lparr>sha = ?T\<rparr>\<rparr>"
  let ?exact = "\<lparr>tagName = ''v1.2.3'', commit = \<lparr>sha = ?S\<rparr>\<rparr>"
  have ne: "\<not> isExactSemanticVersion ''v1''" by (simp add: semver_eval)
  have e1: "isExactSemanticVersion ''v1.2.3''" by (simp add: semver_eval)
  have e2: "isExactSemanticVersion ''v0.9.0''" by (simp add: semver_eval)
  have a: "fst (findExactSemanticVersionTag isExactSemanticVersion [[?given, ?other], [?exact]]
             \<lparr>owner = ''o'', repository = ''p''\<rparr> ''v1'') = Inr ''v1.2.3''"
    using findExactSemanticVersionTag_first_exact_on_commit
      [of isExactSemanticVersion "''v1''" "[[?given, ?other], [?exact]]" ?S
          "\<lparr>owner = ''o'', repository = ''p''\<rparr>" "''v1.2.3''"] ne e1 e2
    by simp
  have b: "fst (findExactSemanticVersionTag isExactSemanticVersion [[?exact, ?other], [?given]]
             \<lparr>owner = ''o'', repository = ''p''\<rparr> ''v1'') = Inr ''v1.2.3''"
    using findExactSemanticVersionTag_first_exact_on_commit
      [of isExactSemanticVersion "''v1''" "[[?exact, ?other], [?given]]" ?S
          "\<lparr>owner = ''o'', repository = ''p''\<rparr>" "''v1.2.3''"] ne e1 e2
    by simp
  show ?thesis using a b by simp
qed

text \<open>
  The claim as the spec words it fails when a second exact-version tag points at the
  same commit: the stream holds the tags \<^verbatim>\<open>v1\<close> and \<^verbatim>\<open>v1.2.3\<close> on one commit, and
  the result is the other exact tag \<^verbatim>\<open>v1.0.0\<close> of that commit, in either order. It
  also fails when an earlier entry named \<^verbatim>\<open>v1\<close> points at another commit that has an
  exact tag.
\<close>

theorem findExactSemanticVersionTag_other_exact_tag_first:
  "\<not> isExactSemanticVersion ''v1'' \<and> isExactSemanticVersion ''v1.2.3''
   \<and> fst (findExactSemanticVersionTag isExactSemanticVersion
        [[\<lparr>tagName = ''v1'', commit = \<lparr>sha = ''8a4600be96d2ec013209042458ce97a9652fcc46''\<rparr>\<rparr>,
          \<lparr>tagName = ''v1.0.0'', commit = \<lparr>sha = ''8a4600be96d2ec013209042458ce97a9652fcc46''\<rparr>\<rparr>,
          \<lparr>tagName = ''v1.2.3'', commit = \<lparr>sha = ''8a4600be96d2ec013209042458ce97a9652fcc46''\<rparr>\<rparr>]]
        \<lparr>owner = ''o'', repository = ''p''\<rparr> ''v1'') = Inr ''v1.0.0''
   \<and> fst (findExactSemanticVersionTag isExactSemanticVersion
        [[\<lparr>tagName = ''v1.0.0'', commit = \<lparr>sha = ''8a4600be96d2ec013209042458ce97a9652fcc46''\<rparr>\<rparr>,
          \<lparr>tagName = ''v1.2.3'', commit = \<lparr>sha = ''8a4600be96d2ec013209042458ce97a9652fcc46''\<rparr>\<rparr>,
          \<lparr>tagName = ''v1'', commit = \<lparr>sha = ''8a4600be96d2ec013209042458ce97a9652fcc46''\<rparr>\<rparr>]]
        \<lparr>owner = ''o'', repository = ''p''\<rparr> ''v1'') = Inr ''v1.0.0''
   \<and> fst (findExactSemanticVersionTag isExactSemanticVersion
        [[\<lparr>tagName = ''v1'', commit = \<lparr>sha = ''0123456789abcdef0123456789abcdef01234567''\<rparr>\<rparr>,
          \<lparr>tagName = ''v2.0.0'', commit = \<lparr>sha = ''0123456789abcdef0123456789abcdef01234567''\<rparr>\<rparr>,
          \<lparr>tagName = ''v1'', commit = \<lparr>sha = ''8a4600be96d2ec013209042458ce97a9652fcc46''\<rparr>\<rparr>,
          \<lparr>tagName = ''v1.2.3'', commit = \<lparr>sha = ''8a4600be96d2ec013209042458ce97a9652fcc46''\<rparr>\<rparr>]]
        \<lparr>owner = ''o'', repository = ''p''\<rparr> ''v1'') = Inr ''v2.0.0''"
  by code_simp

text \<open>
  Claim C8. A reference that is already an exact version is returned unchanged, and
  no page has been taken from the tag stream.
\<close>

theorem findExactSemanticVersionTag_exact_unchanged:
  "isExact target \<Longrightarrow> findExactSemanticVersionTag isExact pages sl target = (Inr target, 0)"
  by (simp add: findExactSemanticVersionTag_def)

theorem findExactSemanticVersionTag_exact_unchanged_witness:
  "findExactSemanticVersionTag isExactSemanticVersion
     [[\<lparr>tagName = ''v1.2.3'', commit = \<lparr>sha = ''8a4600be96d2ec013209042458ce97a9652fcc46''\<rparr>\<rparr>]]
     \<lparr>owner = ''o'', repository = ''p''\<rparr> ''v1.2.3-rc.1+build.456''
   = (Inr ''v1.2.3-rc.1+build.456'', 0)"
proof -
  have e: "isExactSemanticVersion ''v1.2.3-rc.1+build.456''" by (simp add: semver_eval)
  show ?thesis
    using e findExactSemanticVersionTag_exact_unchanged
      [of isExactSemanticVersion "''v1.2.3-rc.1+build.456''"]
    by blast
qed

section \<open>Properties of the asset matcher\<close>

lemma find_first:
  assumes "\<forall>x\<in>set pre. \<not> P x" and "P a"
  shows "find P (pre @ a # post) = Some a"
  using assms by (induction pre) auto

lemma find_none: "(\<forall>x\<in>set xs. \<not> P x) \<Longrightarrow> find P xs = None"
  by (induction xs) auto

text \<open>
  The callback of the mode with a binary name holds of an asset when its label or
  its name is one of the candidate strings.
\<close>

lemma namedMatch_candidates:
  "namedMatch (b @ ''-'' @ t) (b @ ''-'' @ d)
      (case u of None \<Rightarrow> [] | Some s \<Rightarrow> if s \<noteq> [] then b @ ''_'' @ s else []) a
   \<longleftrightarrow> (\<exists>c\<in>set ([b @ ''-'' @ t, b @ ''-'' @ d]
                  @ (case u of None \<Rightarrow> [] | Some s \<Rightarrow> if s \<noteq> [] then [b @ ''_'' @ s] else [])).
          label a = Some c \<or> name a = Some c)"
  by (cases "label a"; cases "name a"; cases u) (auto simp: namedMatch_def)

text \<open>
  The callback of the mode without a binary name holds of an asset when its label or
  its name, without its extension, ends in one of the platform identifiers.
\<close>

lemma platformMatch_fields:
  "platformMatch t d u a \<longleftrightarrow>
     (\<exists>f. (label a = Some f \<or> name a = Some f)
           \<and> (endsWith (stripExtension f) t \<or> endsWith (stripExtension f) d
              \<or> (\<exists>s. u = Some s \<and> s \<noteq> [] \<and> endsWith (stripExtension f) s)))"
  by (cases "label a"; cases "name a"; cases u)
    (auto simp: platformMatch_def endsWithPlatform_def Let_def)

lemmas asset_eval = endsWith_def stripExtension_def suffix_to_prefix

text \<open>
  Claim C4, as the code has it. With a binary name requested, the result is made
  from the first asset of the list whose label or name is one of the candidate
  strings (name-triple, name-duple and, when an underscore duple is given,
  name_underscoreDuple). So, for a list that holds an asset labelled name-triple and
  an asset labelled name-duple, with no asset whose label or name is a candidate
  string before the two, the one of the two that stands first is returned: the
  triple asset when it stands before the duple asset, the duple asset otherwise.
\<close>

theorem findMatchingReleaseAssetMetadata_named_first_match:
  assumes "\<forall>x\<in>set pre. \<forall>c\<in>set ([b @ ''-'' @ t, b @ ''-'' @ d]
                  @ (case u of None \<Rightarrow> [] | Some s \<Rightarrow> if s \<noteq> [] then [b @ ''_'' @ s] else [])).
              label x \<noteq> Some c \<and> name x \<noteq> Some c"
  shows "((\<exists>c\<in>set ([b @ ''-'' @ t, b @ ''-'' @ d]
                  @ (case u of None \<Rightarrow> [] | Some s \<Rightarrow> if s \<noteq> [] then [b @ ''_'' @ s] else [])).
              label a = Some c \<or> name a = Some c)
          \<longrightarrow> findMatchingReleaseAssetMetadata (pre @ a # post) sl (Some b) tag t d u
              = Inr \<lparr>binaryName = Some b, assetUrl = url a, assetName = orEmpty (name a)\<rparr>)
         \<and> (label tripleAsset = Some (b @ ''-'' @ t) \<and> label dupleAsset = Some (b @ ''-'' @ d)
          \<longrightarrow> findMatchingReleaseAssetMetadata (pre @ tripleAsset # mid @ dupleAsset # post)
                sl (Some b) tag t d u
              = Inr \<lparr>binaryName = Some b, assetUrl = url tripleAsset,
                     assetName = orEmpty (name tripleAsset)\<rparr>
            \<and> findMatchingReleaseAssetMetadata (pre @ dupleAsset # mid @ tripleAsset # post)
                sl (Some b) tag t d u
              = Inr \<lparr>binaryName = Some b, assetUrl = url dupleAsset,
                     assetName = orEmpty (name dupleAsset)\<rparr>)"
proof -
  let ?U = "case u of None \<Rightarrow> [] | Some s \<Rightarrow> if s \<noteq> [] then b @ ''_'' @ s else []"
  let ?P = "namedMatch (b @ ''-'' @ t) (b @ ''-'' @ d) ?U"
  have pre: "\<forall>x\<in>set pre. \<not> ?P x"
    using assms(1) unfolding namedMatch_candidates by blast
  have first: "findMatchingReleaseAssetMetadata (pre @ x # rest) sl (Some b) tag t d u
         = Inr \<lparr>binaryName = Some b, assetUrl = url x, assetName = orEmpty (name x)\<rparr>"
    if "?P x" for x rest
  proof -
    have "find ?P (pre @ x # rest) = Some x"
      using pre that by (rule find_first)
    then show ?thesis
      by (simp add: findMatchingReleaseAssetMetadata_def Let_def)
  qed
  have one: "?P a"
    if "\<exists>c\<in>set ([b @ ''-'' @ t, b @ ''-'' @ d]
                  @ (case u of None \<Rightarrow> [] | Some s \<Rightarrow> if s \<noteq> [] then [b @ ''_'' @ s] else [])).
              label a = Some c \<or> name a = Some c"
    using that unfolding namedMatch_candidates by blast
  have tr: "?P tripleAsset" if "label tripleAsset = Some (b @ ''-'' @ t)"
    using that unfolding namedMatch_candidates by simp
  have du: "?P dupleAsset" if "label dupleAsset = Some (b @ ''-'' @ d)"
    using that unfolding namedMatch_candidates by simp
  show ?thesis
    using first [of a post] first [of tripleAsset "mid @ dupleAsset # post"]
      first [of dupleAsset "mid @ tripleAsset # post"] one tr du
    by blast
qed

theorem findMatchingReleaseAssetMetadata_named_first_match_witness:
  "findMatchingReleaseAssetMetadata
     [\<lparr>label = Some ''otherbin-aarch64-apple-darwin'', name = None, url = ''https://example.com/otherbin''\<rparr>,
      \<lparr>label = Some ''testbin-aarch64-apple-darwin'', name = None, url = ''https://example.com/testbin-triple''\<rparr>,
      \<lparr>label = Some ''testbin_darwin_arm64'', name = None, url = ''https://example.com/testbin-underscore''\<rparr>,
      \<lparr>label = Some ''testbin-darwin-arm64'', name = None, url = ''https://example.com/testbin-duple''\<rparr>]
     \<lparr>owner = ''testowner'', repository = ''testrepo''\<rparr> (Some ''testbin'') ''v1.0.0''
     ''aarch64-apple-darwin'' ''darwin-arm64'' (Some ''darwin_arm64'')
   = Inr \<lparr>binaryName = Some ''testbin'', assetUrl = ''https://example.com/testbin-triple'',
          assetName = []\<rparr>
   \<and> findMatchingReleaseAssetMetadata
     [\<lparr>label = Some ''otherbin-aarch64-apple-darwin'', name = None, url = ''https://example.com/otherbin''\<rparr>,
      \<lparr>label = Some ''testbin-darwin-arm64'', name = None, url = ''https://example.com/testbin-duple''\<rparr>,
      \<lparr>label = Some ''testbin_darwin_arm64'', name = None, url = ''https://example.com/testbin-underscore''\<rparr>,
      \<lparr>label = Some ''testbin-aarch64-apple-darwin'', name = None, url = ''https://example.com/testbin-triple''\<rparr>]
     \<lparr>owner = ''testowner'', repository = ''testrepo''\<rparr> (Some ''testbin'') ''v1.0.0''
     ''aarch64-apple-darwin'' ''darwin-arm64'' (Some ''darwin_arm64'')
   = Inr \<lparr>binaryName = Some ''testbin'', assetUrl = ''https://example.com/testbin-duple'',
          assetName = []\<rparr>
   \<and> findMatchingReleaseAssetMetadata
     [\<lparr>label = Some ''otherbin-aarch64-apple-darwin'', name = None, url = ''https://example.com/otherbin''\<rparr>,
      \<lparr>label = Some ''pretty name'', name = Some ''testbin_darwin_arm64'', url = ''https://example.com/testbin-underscore''\<rparr>,
      \<lparr>label = Some ''testbin-aarch64-apple-darwin'', name = None, url = ''https://example.com/testbin-triple''\<rparr>]
     \<lparr>owner = ''testowner'', repository = ''testrepo''\<rparr> (Some ''testbin'') ''v1.0.0''
     ''aarch64-apple-darwin'' ''darwin-arm64'' (Some ''darwin_arm64'')
   = Inr \<lparr>binaryName = Some ''testbin'', assetUrl = ''https://example.com/testbin-underscore'',
          assetName = ''testbin_darwin_arm64''\<rparr>"
proof -
  let ?other = "\<lparr>label = Some ''otherbin-aarch64-apple-darwin'', name = None, url = ''https://example.com/otherbin''\<rparr>"
  let ?triple = "\<lparr>label = Some ''testbin-aarch64-apple-darwin'', name = None, url = ''https://example.com/testbin-triple''\<rparr>"
  let ?duple = "\<lparr>label = Some ''testbin-darwin-arm64'', name = None, url = ''https://example.com/testbin-duple''\<rparr>"
  let ?under = "\<lparr>label = Some ''testbin_darwin_arm64'', name = None, url = ''https://example.com/testbin-underscore''\<rparr>"
  let ?named = "\<lparr>label = Some ''pretty name'', name = Some ''testbin_darwin_arm64'', url = ''https://example.com/testbin-underscore''\<rparr>"
  let ?sl = "\<lparr>owner = ''testowner'', repository = ''testrepo''\<rparr>"
  have h: "\<forall>x\<in>set [?other]. \<forall>c\<in>set ([''testbin'' @ ''-'' @ ''aarch64-apple-darwin'',
                 ''testbin'' @ ''-'' @ ''darwin-arm64'']
                  @ (case Some ''darwin_arm64'' of None \<Rightarrow> []
                     | Some s \<Rightarrow> if s \<noteq> [] then [''testbin'' @ ''_'' @ s] else [])).
              label x \<noteq> Some c \<and> name x \<noteq> Some c"
    by simp
  have both: "findMatchingReleaseAssetMetadata ([?other] @ ?triple # [?under] @ ?duple # [])
                ?sl (Some ''testbin'') ''v1.0.0''
                ''aarch64-apple-darwin'' ''darwin-arm64'' (Some ''darwin_arm64'')
              = Inr \<lparr>binaryName = Some ''testbin'', assetUrl = url ?triple,
                     assetName = orEmpty (name ?triple)\<rparr>
            \<and> findMatchingReleaseAssetMetadata ([?other] @ ?duple # [?under] @ ?triple # [])
                ?sl (Some ''testbin'') ''v1.0.0''
                ''aarch64-apple-darwin'' ''darwin-arm64'' (Some ''darwin_arm64'')
              = Inr \<lparr>binaryName = Some ''testbin'', assetUrl = url ?duple,
                     assetName = orEmpty (name ?duple)\<rparr>"
    using findMatchingReleaseAssetMetadata_named_first_match
      [OF h, where a = ?named and post = "[]" and tripleAsset = ?triple
         and dupleAsset = ?duple and mid = "[?under]" and sl = ?sl and tag = "''v1.0.0''"]
    by simp
  have single: "findMatchingReleaseAssetMetadata ([?other] @ ?named # [?triple])
                ?sl (Some ''testbin'') ''v1.0.0''
                ''aarch64-apple-darwin'' ''darwin-arm64'' (Some ''darwin_arm64'')
              = Inr \<lparr>binaryName = Some ''testbin'', assetUrl = url ?named,
                     assetName = orEmpty (name ?named)\<rparr>"
    using findMatchingReleaseAssetMetadata_named_first_match
      [OF h, where a = ?named and post = "[?triple]" and tripleAsset = ?triple
         and dupleAsset = ?duple and mid = "[?under]" and sl = ?sl and tag = "''v1.0.0''"]
    by simp
  show ?thesis using both single by (simp add: orEmpty_def)
qed

text \<open>
  The claim as the spec words it fails when the asset labelled name-duple stands
  before the asset labelled name-triple: the duple asset is returned.
\<close>

theorem findMatchingReleaseAssetMetadata_named_duple_first:
  "findMatchingReleaseAssetMetadata
     [\<lparr>label = Some ''testbin-darwin-arm64'', name = None, url = ''https://example.com/testbin-duple''\<rparr>,
      \<lparr>label = Some ''testbin-aarch64-apple-darwin'', name = None, url = ''https://example.com/testbin-triple''\<rparr>]
     \<lparr>owner = ''testowner'', repository = ''testrepo''\<rparr> (Some ''testbin'') ''v1.0.0''
     ''aarch64-apple-darwin'' ''darwin-arm64'' None
   = Inr \<lparr>binaryName = Some ''testbin'', assetUrl = ''https://example.com/testbin-duple'',
          assetName = []\<rparr>"
  by code_simp

text \<open>
  Claim C6. With a binary name requested, when no asset has a label or a name equal
  to one of the candidate strings, the call throws the error whose message lists the
  slug, the tag and the candidates: two of them when no underscore duple is given,
  three when one is given (a duple is a non-empty string; the empty string counts as
  not given).
\<close>

theorem findMatchingReleaseAssetMetadata_named_not_found:
  assumes "\<forall>x\<in>set assets. \<forall>c\<in>set ([b @ ''-'' @ t, b @ ''-'' @ d]
                  @ (case u of None \<Rightarrow> [] | Some s \<Rightarrow> if s \<noteq> [] then [b @ ''_'' @ s] else [])).
              label x \<noteq> Some c \<and> name x \<noteq> Some c"
  shows "findMatchingReleaseAssetMetadata assets sl (Some b) tag t d u
         = Inl (Error (''Expected to find asset in release '' @ owner sl @ ''/'' @ repository sl
                  @ ''@'' @ tag @ '' with label or name '' @ b @ ''-'' @ t @ '' or '' @ b @ ''-'' @ d
                  @ (case u of None \<Rightarrow> []
                     | Some s \<Rightarrow> if s \<noteq> [] then '' or '' @ b @ ''_'' @ s else [])))"
proof -
  let ?U = "case u of None \<Rightarrow> [] | Some s \<Rightarrow> if s \<noteq> [] then b @ ''_'' @ s else []"
  let ?P = "namedMatch (b @ ''-'' @ t) (b @ ''-'' @ d) ?U"
  have "\<forall>x\<in>set assets. \<not> ?P x"
    using assms(1) unfolding namedMatch_candidates by blast
  then have "find ?P assets = None" by (rule find_none)
  then show ?thesis
    by (cases u) (simp_all add: findMatchingReleaseAssetMetadata_def Let_def truthy_def)
qed

theorem findMatchingReleaseAssetMetadata_named_not_found_witness:
  "findMatchingReleaseAssetMetadata
     [\<lparr>label = Some ''otherbin-aarch64-apple-darwin'', name = None, url = ''https://example.com/otherbin''\<rparr>,
      \<lparr>label = Some ''otherbin-darwin-arm64'', name = Some ''otherbin.zip'', url = ''https://example.com/otherbin-duple''\<rparr>]
     \<lparr>owner = ''testowner'', repository = ''testrepo''\<rparr> (Some ''testbin'') ''v1.0.0''
     ''aarch64-apple-darwin'' ''darwin-arm64'' None
   = Inl (Error ''Expected to find asset in release testowner/testrepo@v1.0.0 with label or name testbin-aarch64-apple-darwin or testbin-darwin-arm64'')
   \<and> findMatchingReleaseAssetMetadata
     [\<lparr>label = Some ''otherbin-aarch64-apple-darwin'', name = None, url = ''https://example.com/otherbin''\<rparr>,
      \<lparr>label = Some ''otherbin-darwin-arm64'', name = Some ''otherbin.zip'', url = ''https://example.com/otherbin-duple''\<rparr>]
     \<lparr>owner = ''testowner'', repository = ''testrepo''\<rparr> (Some ''testbin'') ''v1.0.0''
     ''aarch64-apple-darwin'' ''darwin-arm64'' (Some ''darwin_arm64'')
   = Inl (Error ''Expected to find asset in release testowner/testrepo@v1.0.0 with label or name testbin-aarch64-apple-darwin or testbin-darwin-arm64 or testbin_darwin_arm64'')"
proof -
  let ?assets = "[\<lparr>label = Some ''otherbin-aarch64-apple-darwin'', name = None, url = ''https://example.com/otherbin''\<rparr>,
      \<lparr>label = Some ''otherbin-darwin-arm64'', name = Some ''otherbin.zip'', url = ''https://example.com/otherbin-duple''\<rparr>]"
  let ?sl = "\<lparr>owner = ''testowner'', repository = ''testrepo''\<rparr>"
  have h1: "\<forall>x\<in>set ?assets. \<forall>c\<in>set ([''testbin'' @ ''-'' @ ''aarch64-apple-darwin'',
                 ''testbin'' @ ''-'' @ ''darwin-arm64'']
                  @ (case None of None \<Rightarrow> []
                     | Some s \<Rightarrow> if s \<noteq> [] then [''testbin'' @ ''_'' @ s] else [])).
              label x \<noteq> Some c \<and> name x \<noteq> Some c"
    by simp
  have h2: "\<forall>x\<in>set ?assets. \<forall>c\<in>set ([''testbin'' @ ''-'' @ ''aarch64-apple-darwin'',
                 ''testbin'' @ ''-'' @ ''darwin-arm64'']
                  @ (case Some ''darwin_arm64'' of None \<Rightarrow> []
                     | Some s \<Rightarrow> if s \<noteq> [] then [''testbin'' @ ''_'' @ s] else [])).
              label x \<noteq> Some c \<and> name x \<noteq> Some c"
    by simp
  show ?thesis
    using findMatchingReleaseAssetMetadata_named_not_found [OF h1, of ?sl "''v1.0.0''"]
      findMatchingReleaseAssetMetadata_named_not_found [OF h2, of ?sl "''v1.0.0''"]
    by simp
qed

text \<open>
  Claim C5. With no binary name requested, when \<open>n > 1\<close> assets have a label or a
  name that, without its extension, ends in the triple, the duple or the underscore
  duple, the call throws the error with the ambiguity message: it names the slug,
  the tag, the two or three platform identifiers (three when an underscore duple, a
  non-empty string, is given) and the count \<open>n\<close> in decimal, followed by an empty
  line and the advice to name the binary.
\<close>

theorem findMatchingReleaseAssetMetadata_unnamed_ambiguous:
  assumes "n = length (filter (\<lambda>a. \<exists>f. (label a = Some f \<or> name a = Some f)
           \<and> (endsWith (stripExtension f) t \<or> endsWith (stripExtension f) d
              \<or> (\<exists>s. u = Some s \<and> s \<noteq> [] \<and> endsWith (stripExtension f) s))) assets)"
    and "n > 1"
  shows "findMatchingReleaseAssetMetadata assets sl None tag t d u
         = Inl (Error (''Ambiguous targets: expected to find a single asset in release ''
                  @ owner sl @ ''/'' @ repository sl @ ''@'' @ tag
                  @ '' containing platform identifier '' @ t @ '' or '' @ d
                  @ (case u of None \<Rightarrow> [] | Some s \<Rightarrow> if s \<noteq> [] then '' or '' @ s else [])
                  @ '' at the end of the filename (before the extension), but found ''
                  @ showNat n @ ''.'' @ [CHR 0x0A, CHR 0x0A]
                  @ ''To resolve, specify the desired binary with the target format ''
                  @ owner sl @ ''/'' @ repository sl @ ''/<binary-name>@'' @ tag))"
proof -
  have n: "n = length (filter (platformMatch t d u) assets)"
  proof -
    have "platformMatch t d u = (\<lambda>a. \<exists>f. (label a = Some f \<or> name a = Some f)
           \<and> (endsWith (stripExtension f) t \<or> endsWith (stripExtension f) d
              \<or> (\<exists>s. u = Some s \<and> s \<noteq> [] \<and> endsWith (stripExtension f) s)))"
      by (rule ext) (rule platformMatch_fields)
    then show ?thesis using assms(1) by simp
  qed
  obtain a others where m: "filter (platformMatch t d u) assets = a # others"
    using n assms(2) by (cases "filter (platformMatch t d u) assets") auto
  have len: "length (a # others) = n \<and> others \<noteq> []" using n m assms(2) by auto
  show ?thesis
    using m len
    by (cases u) (auto simp: findMatchingReleaseAssetMetadata_def Let_def)
qed

theorem findMatchingReleaseAssetMetadata_unnamed_ambiguous_witness:
  "findMatchingReleaseAssetMetadata
     [\<lparr>label = Some ''bin1-aarch64-apple-darwin'', name = None, url = ''https://example.com/bin1''\<rparr>,
      \<lparr>label = None, name = Some ''bin2_darwin_arm64.zip'', url = ''https://example.com/bin2''\<rparr>,
      \<lparr>label = Some ''bin3-windows-x64'', name = Some ''bin3.exe'', url = ''https://example.com/bin3''\<rparr>]
     \<lparr>owner = ''testowner'', repository = ''testrepo''\<rparr> None ''v1.0.0''
     ''aarch64-apple-darwin'' ''darwin-arm64'' (Some ''darwin_arm64'')
   = Inl (Error (''Ambiguous targets: expected to find a single asset in release testowner/testrepo@v1.0.0 containing platform identifier aarch64-apple-darwin or darwin-arm64 or darwin_arm64 at the end of the filename (before the extension), but found 2.''
          @ [CHR 0x0A, CHR 0x0A]
          @ ''To resolve, specify the desired binary with the target format testowner/testrepo/<binary-name>@v1.0.0''))"
proof -
  let ?assets = "[\<lparr>label = Some ''bin1-aarch64-apple-darwin'', name = None, url = ''https://example.com/bin1''\<rparr>,
      \<lparr>label = None, name = Some ''bin2_darwin_arm64.zip'', url = ''https://example.com/bin2''\<rparr>,
      \<lparr>label = Some ''bin3-windows-x64'', name = Some ''bin3.exe'', url = ''https://example.com/bin3''\<rparr>]"
  let ?t = "''aarch64-apple-darwin''" and ?d = "''darwin-arm64''" and ?u = "Some ''darwin_arm64''"
  have h1: "(2::nat) = length (filter (\<lambda>a. \<exists>f. (label a = Some f \<or> name a = Some f)
           \<and> (endsWith (stripExtension f) ?t \<or> endsWith (stripExtension f) ?d
              \<or> (\<exists>s. ?u = Some s \<and> s \<noteq> [] \<and> endsWith (stripExtension f) s))) ?assets)"
    unfolding platformMatch_fields [symmetric]
    by (simp add: platformMatch_def endsWithPlatform_def asset_eval)
  have h2: "(2::nat) > 1" by simp
  show ?thesis
    using findMatchingReleaseAssetMetadata_unnamed_ambiguous
      [OF h1 h2, of "\<lparr>owner = ''testowner'', repository = ''testrepo''\<rparr>" "''v1.0.0''"]
    by (simp add: showNat.simps)
qed

text \<open>
  The stripped value is absent exactly for the known triples and duples.
\<close>

lemma find_eq_None_iff: "find (\<lambda>x. x = v) xs \<noteq> None \<longleftrightarrow> v \<in> set xs"
  by (induction xs) auto

lemma stripTargetTriple_absent:
  "stripTargetTriple v = None \<longleftrightarrow> v \<in> set ALL_TARGET_TRIPLES \<union> set TARGET_DUPLES"
  unfolding stripTargetTriple_def find_eq_None_iff by (simp add: Let_def)

text \<open>
  Where the label itself ends in the triple or the duple, the binary name is the
  stripped label; where the asset has no label, it is the stripped name.
\<close>

lemma findMatchingReleaseAssetMetadata_unnamed_name:
  assumes "filter (platformMatch t d u) assets = [a]"
    and "label a = None"
    and "name a = Some n"
  shows "findMatchingReleaseAssetMetadata assets sl None tag t d u
         = Inr \<lparr>binaryName = stripTargetTriple n, assetUrl = url a, assetName = n\<rparr>"
  using assms by (auto simp: findMatchingReleaseAssetMetadata_def Let_def orEmpty_def)

lemma findMatchingReleaseAssetMetadata_unnamed_label:
  assumes "filter (platformMatch t d u) assets = [a]"
    and "label a = Some l"
    and "endsWith l t \<or> endsWith l d"
  shows "findMatchingReleaseAssetMetadata assets sl None tag t d u
         = Inr \<lparr>binaryName = stripTargetTriple l, assetUrl = url a,
                assetName = orEmpty (name a)\<rparr>"
  using assms by (auto simp: findMatchingReleaseAssetMetadata_def Let_def)

text \<open>
  Claim C2 at an asset whose label matches through the underscore duple. The label
  \<^verbatim>\<open>tool_darwin_arm64\<close> is the field that matches (the name \<^verbatim>\<open>asset.bin\<close> does not), and
  stripping it gives \<^verbatim>\<open>tool\<close>; the code strips the name instead, because the test
  that picks the field looks for the triple and the hyphen duple only, and returns
  the binary name \<^verbatim>\<open>asset.bin\<close>.
\<close>

theorem findMatchingReleaseAssetMetadata_strips_wrong_field:
  "endsWithPlatform ''aarch64-apple-darwin'' ''darwin-arm64'' (Some ''darwin_arm64'')
      ''tool_darwin_arm64''
   \<and> \<not> endsWithPlatform ''aarch64-apple-darwin'' ''darwin-arm64'' (Some ''darwin_arm64'')
      ''asset.bin''
   \<and> stripTargetTriple ''tool_darwin_arm64'' = Some ''tool''
   \<and> findMatchingReleaseAssetMetadata
        [\<lparr>label = Some ''tool_darwin_arm64'', name = Some ''asset.bin'',
          url = ''https://example.com/tool''\<rparr>]
        \<lparr>owner = ''testowner'', repository = ''testrepo''\<rparr> None ''v1.0.0''
        ''aarch64-apple-darwin'' ''darwin-arm64'' (Some ''darwin_arm64'')
      = Inr \<lparr>binaryName = Some ''asset.bin'', assetUrl = ''https://example.com/tool'',
             assetName = ''asset.bin''\<rparr>"
  by code_simp

text \<open>
  Claim C10 at a single matching asset without a name whose label matches through
  the underscore duple, or through the duple before an extension: the field test
  falls through to the missing name and the call ends in a \<^verbatim>\<open>TypeError\<close>, which is
  neither a result nor one of the two documented errors.
\<close>

theorem findMatchingReleaseAssetMetadata_undefined_name:
  "findMatchingReleaseAssetMetadata
     [\<lparr>label = Some ''tool_darwin_arm64'', name = None, url = ''https://example.com/tool''\<rparr>]
     \<lparr>owner = ''testowner'', repository = ''testrepo''\<rparr> None ''v1.0.0''
     ''aarch64-apple-darwin'' ''darwin-arm64'' (Some ''darwin_arm64'') = Inl TypeError
   \<and> findMatchingReleaseAssetMetadata
     [\<lparr>label = Some ''tool-darwin-arm64.zip'', name = None, url = ''https://example.com/tool''\<rparr>]
     \<lparr>owner = ''testowner'', repository = ''testrepo''\<rparr> None ''v1.0.0''
     ''aarch64-apple-darwin'' ''darwin-arm64'' None = Inl TypeError"
  by code_simp

section \<open>Properties of the target specification parser\<close>

text \<open>White space before, between and after tokens does not change the tokens.\<close>

lemma splitWhitespace_spaces: "\<forall>c\<in>set w. isSpace c \<Longrightarrow> splitWhitespace (w @ s) = splitWhitespace s"
  by (induction w) auto

lemma splitWhitespace_token_then_space:
  assumes "t \<noteq> []" and "\<forall>c\<in>set t. \<not> isSpace c" and "isSpace c"
  shows "splitWhitespace (t @ c # s) = t # splitWhitespace (c # s)"
  using assms
proof (induction t)
  case Nil
  then show ?case by simp
next
  case (Cons x t)
  show ?case
  proof (cases t)
    case Nil
    then show ?thesis using Cons.prems by simp
  next
    case (Cons y t')
    have "splitWhitespace (t @ c # s) = t # splitWhitespace (c # s)"
      using Cons.IH Cons.prems Cons by simp
    then show ?thesis using Cons.prems Cons by simp
  qed
qed

lemma splitWhitespace_token:
  assumes "t \<noteq> []" and "\<forall>c\<in>set t. \<not> isSpace c"
  shows "splitWhitespace t = [t]"
  using assms
proof (induction t)
  case Nil
  then show ?case by simp
next
  case (Cons x t)
  show ?case
  proof (cases t)
    case Nil
    then show ?thesis using Cons.prems by simp
  next
    case (Cons y t')
    have "splitWhitespace t = [t]"
      using Cons.IH Cons.prems Cons by simp
    then show ?thesis using Cons.prems Cons by simp
  qed
qed

lemma splitWhitespace_trailing_spaces:
  assumes "\<forall>c\<in>set w. isSpace c"
  shows "splitWhitespace (s @ w) = splitWhitespace s"
proof (induction s rule: splitWhitespace.induct)
  case 1
  show ?case using splitWhitespace_spaces [OF assms, of "[]"] by simp
next
  case (2 c cs)
  show ?case
  proof (cases "isSpace c")
    case True
    then show ?thesis using 2 by simp
  next
    case False
    show ?thesis
    proof (cases cs)
      case Nil
      show ?thesis
      proof (cases w)
        case Nil
        then show ?thesis using \<open>cs = []\<close> by simp
      next
        case (Cons d w')
        have "splitWhitespace (d # w') = []"
          using splitWhitespace_spaces [OF assms, of "[]"] Cons by simp
        then show ?thesis using False \<open>cs = []\<close> Cons assms by simp
      qed
    next
      case (Cons d cs')
      then show ?thesis using False 2 by (auto split: list.splits)
    qed
  qed
qed

lemma splitWhitespace_dropWhile: "splitWhitespace (dropWhile isSpace s) = splitWhitespace s"
  by (induction s) auto

lemma splitWhitespace_trim: "splitWhitespace (trim s) = splitWhitespace s"
proof -
  let ?s = "dropWhile isSpace s"
  have split: "?s = rev (dropWhile isSpace (rev ?s)) @ rev (takeWhile isSpace (rev ?s))"
    by (metis rev_append rev_rev_ident takeWhile_dropWhile_id)
  have sp: "\<forall>c\<in>set (rev (takeWhile isSpace (rev ?s))). isSpace c"
    by (auto dest: set_takeWhileD)
  have "splitWhitespace (trim s) = splitWhitespace (rev (dropWhile isSpace (rev ?s)))"
    by (simp add: trim_def)
  also have "\<dots> = splitWhitespace (rev (dropWhile isSpace (rev ?s)) @ rev (takeWhile isSpace (rev ?s)))"
    using splitWhitespace_trailing_spaces [OF sp] by simp
  also have "\<dots> = splitWhitespace ?s" using split by simp
  also have "\<dots> = splitWhitespace s" by (rule splitWhitespace_dropWhile)
  finally show ?thesis .
qed

lemma splitWhitespace_layout:
  assumes "\<forall>(t, w)\<in>set segs. t \<noteq> [] \<and> (\<forall>c\<in>set t. \<not> isSpace c) \<and> (\<forall>c\<in>set w. isSpace c)"
    and "\<forall>(t, w)\<in>set (butlast segs). w \<noteq> []"
  shows "splitWhitespace (concat (map (\<lambda>(t, w). t @ w) segs)) = map fst segs"
  using assms
proof (induction segs)
  case Nil
  then show ?case by simp
next
  case (Cons seg segs)
  obtain t w where seg: "seg = (t, w)" by (cases seg)
  have t: "t \<noteq> []" "\<forall>c\<in>set t. \<not> isSpace c" and w: "\<forall>c\<in>set w. isSpace c"
    using Cons.prems(1) seg by auto
  show ?case
  proof (cases segs)
    case Nil
    have "splitWhitespace (t @ w) = [t]"
      using splitWhitespace_trailing_spaces [OF w, of t] splitWhitespace_token [OF t] by simp
    then show ?thesis using Nil seg by simp
  next
    case (Cons seg' segs')
    then have "w \<noteq> []" using Cons.prems(2) seg by simp
    then obtain c w' where cw: "w = c # w'" by (cases w) auto
    have c: "isSpace c" using w cw by simp
    let ?rest = "concat (map (\<lambda>(t, w). t @ w) segs)"
    have IH: "splitWhitespace ?rest = map fst segs"
      using Cons.IH Cons.prems Cons by (auto split: if_splits)
    have "splitWhitespace (t @ c # (w' @ ?rest)) = t # splitWhitespace (c # (w' @ ?rest))"
      using splitWhitespace_token_then_space [OF t c] .
    also have "splitWhitespace (c # (w' @ ?rest)) = splitWhitespace ?rest"
      using splitWhitespace_spaces [of w ?rest] w cw by simp
    finally show ?thesis using IH seg cw by simp
  qed
qed

lemma those_map_Some: "those (map Some rs) = Some rs"
  by (induction rs) auto

lemma those_None: "None \<in> set xs \<Longrightarrow> those xs = None"
  by (induction xs) (auto split: option.splits)

text \<open>
  Claim C9, on the parser modelled from the spec. Let the text be white space
  \<open>lead\<close> followed by tokens (non-empty, free of white space), each followed by a
  run of white space that is non-empty except possibly after the last token. If
  there is a token and every token parses, the parse succeeds with exactly one
  record per token, in the order of the tokens. If there is no token, or some token
  does not parse, the parse fails with at least one diagnostic and returns no
  records.
\<close>

theorem parseTargetReleases_layout:
  assumes "\<forall>c\<in>set lead. isSpace c"
    and "\<forall>(t, w)\<in>set segs. t \<noteq> [] \<and> (\<forall>c\<in>set t. \<not> isSpace c) \<and> (\<forall>c\<in>set w. isSpace c)"
    and "\<forall>(t, w)\<in>set (butlast segs). w \<noteq> []"
  shows "(segs \<noteq> [] \<and> map parseTargetRelease (map fst segs) = map Some rs
            \<longrightarrow> parseTargetReleases (lead @ concat (map (\<lambda>(t, w). t @ w) segs)) = Inr rs
                \<and> length rs = length segs)
         \<and> (segs = [] \<or> (\<exists>t\<in>set (map fst segs). parseTargetRelease t = None)
            \<longrightarrow> (\<exists>ds. ds \<noteq> []
                    \<and> parseTargetReleases (lead @ concat (map (\<lambda>(t, w). t @ w) segs)) = Inl ds))"
proof -
  let ?text = "lead @ concat (map (\<lambda>(t, w). t @ w) segs)"
  have tokens: "splitWhitespace (trim ?text) = map fst segs"
    using splitWhitespace_layout [OF assms(2) assms(3)] splitWhitespace_spaces [OF assms(1)]
    by (simp add: splitWhitespace_trim)
  have ok: "parseTargetReleases ?text = Inr rs \<and> length rs = length segs"
    if "segs \<noteq> []" and "map parseTargetRelease (map fst segs) = map Some rs"
  proof -
    have "length rs = length segs" using that(2) by (metis length_map)
    then show ?thesis
      using that tokens by (simp add: parseTargetReleases_def those_map_Some)
  qed
  have empty: "\<exists>ds. ds \<noteq> [] \<and> parseTargetReleases ?text = Inl ds" if "segs = []"
    using that tokens by (simp add: parseTargetReleases_def)
  have bad: "\<exists>ds. ds \<noteq> [] \<and> parseTargetReleases ?text = Inl ds"
    if h: "\<exists>t\<in>set (map fst segs). parseTargetRelease t = None"
  proof -
    obtain t where t: "t \<in> set (map fst segs)" "parseTargetRelease t = None"
      using h by blast
    then have "None \<in> set (map parseTargetRelease (map fst segs))" by force
    then have none: "those (map parseTargetRelease (map fst segs)) = None"
      by (rule those_None)
    have ne: "filter (\<lambda>t. parseTargetRelease t = None) (map fst segs) \<noteq> []"
      using t by (auto simp: filter_empty_conv)
    have "segs \<noteq> []" using t by auto
    then show ?thesis
      using tokens none ne by (simp add: parseTargetReleases_def)
  qed
  show ?thesis using ok empty bad by blast
qed

lemmas parse_eval =
  parseTargetRelease_def breakAt_def isSemanticVersion_def semanticVersionComponents_def
  dotSeparated_def isDigit_def isIdentChar_def isNameChar_def isSpace_def parseChecksum_def
  isLowerHex_def

theorem parseTargetReleases_layout_witness:
  "parseTargetReleases
     ([CHR 0x20, CHR 0x20, CHR 0x0A, CHR 0x20] @ ''foo/bar@v1'' @ [CHR 0x20, CHR 0x20]
        @ ''qux/baz/tool@v2.3.4'' @ [CHR 0x0A, CHR 0x20])
     = Inr [\<lparr>slug = \<lparr>owner = ''foo'', repository = ''bar''\<rparr>, targetBinaryName = None,
              targetTag = ''v1'', checksum = None\<rparr>,
            \<lparr>slug = \<lparr>owner = ''qux'', repository = ''baz''\<rparr>, targetBinaryName = Some ''tool'',
              targetTag = ''v2.3.4'', checksum = None\<rparr>]
   \<and> (\<exists>ds. ds \<noteq> [] \<and> parseTargetReleases (''foo/bar@v1'' @ [CHR 0x0A] @ ''foo/bar@1'') = Inl ds)
   \<and> (\<exists>ds. ds \<noteq> [] \<and> parseTargetReleases [CHR 0x20, CHR 0x0A] = Inl ds)"
proof -
  let ?r1 = "\<lparr>slug = \<lparr>owner = ''foo'', repository = ''bar''\<rparr>, targetBinaryName = None,
              targetTag = ''v1'', checksum = None\<rparr>"
  let ?r2 = "\<lparr>slug = \<lparr>owner = ''qux'', repository = ''baz''\<rparr>, targetBinaryName = Some ''tool'',
              targetTag = ''v2.3.4'', checksum = None\<rparr>"
  have p1: "parseTargetRelease ''foo/bar@v1'' = Some ?r1" by (simp add: parse_eval)
  have p2: "parseTargetRelease ''qux/baz/tool@v2.3.4'' = Some ?r2" by (simp add: parse_eval)
  have p3: "parseTargetRelease ''foo/bar@1'' = None" by (simp add: parse_eval)
  have a: "parseTargetReleases
     ([CHR 0x20, CHR 0x20, CHR 0x0A, CHR 0x20] @ ''foo/bar@v1'' @ [CHR 0x20, CHR 0x20]
        @ ''qux/baz/tool@v2.3.4'' @ [CHR 0x0A, CHR 0x20]) = Inr [?r1, ?r2]"
    using parseTargetReleases_layout
      [of "[CHR 0x20, CHR 0x20, CHR 0x0A, CHR 0x20]"
          "[(''foo/bar@v1'', [CHR 0x20, CHR 0x20]), (''qux/baz/tool@v2.3.4'', [CHR 0x0A, CHR 0x20])]"
          "[?r1, ?r2]"] p1 p2
    by (simp add: isSpace_def)
  have b: "\<exists>ds. ds \<noteq> [] \<and> parseTargetReleases (''foo/bar@v1'' @ [CHR 0x0A] @ ''foo/bar@1'') = Inl ds"
    using parseTargetReleases_layout
      [of "[]" "[(''foo/bar@v1'', [CHR 0x0A]), (''foo/bar@1'', [])]" "[]"] p3
    by (simp add: isSpace_def)
  have c: "\<exists>ds. ds \<noteq> [] \<and> parseTargetReleases [CHR 0x20, CHR 0x0A] = Inl ds"
    using parseTargetReleases_layout [of "[CHR 0x20, CHR 0x0A]" "[]" "[]"]
    by (simp add: isSpace_def)
  show ?thesis using a b c by blast
qed

end
